theory Spec2Isabelle
  imports Main
begin

section \<open>Python values and their rendering\<close>

text \<open>
  The check reads JSON numbers and computes one boolean per device. A metric
  value is therefore a Python \<open>int\<close> (unbounded) or a \<open>bool\<close>. JSON numbers with a
  fractional part (Python floats) are outside this development. In Python
  \<open>bool\<close> is a subclass of \<open>int\<close>: \<open>True\<close> compares as 1 and \<open>False\<close> as 0, and
  \<open>str\<close> renders them as \<open>True\<close> and \<open>False\<close>.
\<close>

datatype pyval = PyInt int | PyBool bool

fun num_of :: "pyval \<Rightarrow> int" where
  "num_of (PyInt i) = i"
| "num_of (PyBool b) = (if b then 1 else 0)"

definition digit_char :: "nat \<Rightarrow> char" where
  "digit_char d = ''0123456789'' ! d"

function str_nat :: "nat \<Rightarrow> string" where
  "str_nat n = (if n < 10 then [digit_char n]
                else str_nat (n div 10) @ [digit_char (n mod 10)])"
  by pat_completeness auto
termination
  by (relation "measure id") auto

declare str_nat.simps [simp del]

definition str_int :: "int \<Rightarrow> string" where
  "str_int i = (if i < 0 then CHR ''-'' # str_nat (nat (- i)) else str_nat (nat i))"

fun py_str :: "pyval \<Rightarrow> string" where
  "py_str (PyInt i) = str_int i"
| "py_str (PyBool b) = (if b then ''True'' else ''False'')"

text \<open>\<open>f"{x}"\<close> for an optional integer and an optional string: \<open>None\<close> prints as \<open>None\<close>.\<close>

definition fmt_opt_int :: "int option \<Rightarrow> string" where
  "fmt_opt_int b = (case b of None \<Rightarrow> ''None'' | Some n \<Rightarrow> str_int n)"

definition fmt_opt_str :: "string option \<Rightarrow> string" where
  "fmt_opt_str s = (case s of None \<Rightarrow> ''None'' | Some t \<Rightarrow> t)"

section \<open>Metrics, states and results\<close>

text \<open>
  \<open>nagiosplugin.state\<close>: four service states, each a pair of a code and a text,
  \<open>Ok = (0, ok)\<close>, \<open>Warn = (1, warning)\<close>, \<open>Critical = (2, critical)\<close>,
  \<open>Unknown = (3, unknown)\<close>; \<open>str\<close> of a state is its text and states compare by
  their code.
\<close>

datatype service_state = Ok | Warn | Critical | Unknown

fun state_code :: "service_state \<Rightarrow> nat" where
  "state_code Ok = 0"
| "state_code Warn = 1"
| "state_code Critical = 2"
| "state_code Unknown = 3"

fun state_text :: "service_state \<Rightarrow> string" where
  "state_text Ok = ''ok''"
| "state_text Warn = ''warning''"
| "state_text Critical = ''critical''"
| "state_text Unknown = ''unknown''"

text \<open>
  \<open>Metric(name, value, uom=None, context=None)\<close>; the check never sets \<open>min\<close> or
  \<open>max\<close>. A result is \<open>result_cls(state, hint, metric)\<close>.
\<close>

record metric =
  name :: string
  mvalue :: pyval
  uom :: "string option"
  mcontext :: string

record result =
  state :: service_state
  hint :: "string option"
  metric :: metric

section \<open>BelowThresholdContext\<close>

text \<open>
  \<^verbatim>\<open>
  def evaluate(self, metric, resource):
      unit = None
      if metric.uom:
          unit = metric.uom
      if self.critical and metric.value <= self.critical:
          return self.result_cls(Critical, f"{metric.value}<={self.critical}{unit}", metric)
      elif self.warning and metric.value <= self.warning:
          return self.result_cls(Warn, f"{metric.value}<={self.warning}{unit}", metric)
      else:
          return self.result_cls(Ok, None, metric)
  \<close>
  The bounds come from \<open>argparse\<close> with \<open>type=int\<close> and no default: an integer or
  \<open>None\<close>. \<open>self.critical and ...\<close> tests the truth value of the bound: \<open>None\<close> and
  \<open>0\<close> are both false, and the comparison is evaluated only for a true bound.
\<close>

definition truthy :: "int option \<Rightarrow> bool" where
  "truthy b = (case b of None \<Rightarrow> False | Some n \<Rightarrow> n \<noteq> 0)"

definition le_bound :: "pyval \<Rightarrow> int option \<Rightarrow> bool" where
  "le_bound v b = (case b of None \<Rightarrow> False | Some n \<Rightarrow> num_of v \<le> n)"

definition metric_unit :: "metric \<Rightarrow> string option" where
  "metric_unit m = (case uom m of None \<Rightarrow> None
                    | Some u \<Rightarrow> if u = [] then None else Some u)"

definition BelowThresholdContext_evaluate ::
    "int option \<Rightarrow> int option \<Rightarrow> metric \<Rightarrow> result" where
  "BelowThresholdContext_evaluate warning critical m =
     (let unit = metric_unit m in
      if truthy critical \<and> le_bound (mvalue m) critical then
        \<lparr>state = Critical,
         hint = Some (py_str (mvalue m) @ ''<='' @ fmt_opt_int critical @ fmt_opt_str unit),
         metric = m\<rparr>
      else if truthy warning \<and> le_bound (mvalue m) warning then
        \<lparr>state = Warn,
         hint = Some (py_str (mvalue m) @ ''<='' @ fmt_opt_int warning @ fmt_opt_str unit),
         metric = m\<rparr>
      else \<lparr>state = Ok, hint = None, metric = m\<rparr>)"

text \<open>
  \<^verbatim>\<open>
  def performance(self, metric, resource):
      return Performance(metric.name, metric.value, metric.uom,
                         self.warning, self.critical, metric.min, metric.max)
  \<close>
  The record holds the arguments handed to the library's \<open>Performance\<close>; \<open>metric.min\<close>
  and \<open>metric.max\<close> are never set and stay \<open>None\<close>. The bounds are passed on as they
  were configured, without a test of their truth value.
\<close>

record performance =
  perf_label :: string
  perf_value :: pyval
  perf_uom :: "string option"
  perf_warn :: "int option"
  perf_crit :: "int option"

definition BelowThresholdContext_performance ::
    "int option \<Rightarrow> int option \<Rightarrow> metric \<Rightarrow> performance" where
  "BelowThresholdContext_performance warning critical m =
     \<lparr>perf_label = name m, perf_value = mvalue m, perf_uom = uom m,
      perf_warn = warning, perf_crit = critical\<rparr>"

section \<open>TeamRedMinerApi: one request over the wire\<close>

text \<open>
  Exceptions are values. \<open>OSError\<close> stands for every failure of \<open>connect\<close>, \<open>sendall\<close>
  and \<open>recv\<close> (refused, reset, timed out), \<open>JSONDecodeError\<close> for a reply that
  \<open>json.loads\<close> rejects; both carry the text \<open>str(err)\<close> gives. \<open>KeyError\<close> carries the
  missing key of a dictionary lookup, \<open>ContextKeyError\<close> the context name that
  \<open>nagiosplugin\<close>'s \<open>Contexts.__getitem__\<close> did not find.
\<close>

datatype error =
    OSError string
  | JSONDecodeError string
  | ApiError string
  | KeyError string
  | IndexError string
  | ValueError string
  | ContextKeyError string "string list"

text \<open>
  The decoded reply. An element of the \<open>STATUS\<close> array is a dictionary read at the
  keys \<open>STATUS\<close>, \<open>Code\<close> and \<open>Msg\<close>; a payload record is a dictionary read at the six
  keys below. A key that is absent is \<open>None\<close>. The reply itself is a dictionary with
  the keys \<open>STATUS\<close> and \<open>id\<close> and, in their order, the remaining keys, each holding
  an array of records. The values have the types the rig sends: \<open>Code\<close>, \<open>id\<close>, \<open>GPU\<close>,
  \<open>MHS 30s\<close>, \<open>Elapsed\<close> and the temperatures are integers, \<open>STATUS\<close>, \<open>Msg\<close> and
  \<open>Status\<close> are strings. A reply of another shape (and what Python raises on it) is
  outside this development.
\<close>

record status_entry =
  st_STATUS :: "string option"
  st_Code :: "int option"
  st_Msg :: "string option"

record payload_record =
  MHS_30s :: "int option"
  Elapsed :: "int option"
  GPU :: "int option"
  Status :: "string option"
  Temperature :: "int option"
  TemperatureMem :: "int option"

record response =
  r_STATUS :: "status_entry list option"
  r_id :: "int option"
  r_rest :: "(string \<times> payload_record list) list"

text \<open>
  \<^verbatim>\<open>
  def raise_for_status(response):
      for r in response["STATUS"]:
          status = r["STATUS"]
          code = r["Code"]
          message = r["Msg"]
          if status in ["W", "E", "F"]:
              raise ApiError(f"API error: {message} (code {code})")
  \<close>
\<close>

fun status_loop :: "status_entry list \<Rightarrow> error + unit" where
  "status_loop [] = Inr ()"
| "status_loop (r # rs) =
     (case st_STATUS r of
        None \<Rightarrow> Inl (KeyError ''STATUS'')
      | Some status \<Rightarrow>
          (case st_Code r of
             None \<Rightarrow> Inl (KeyError ''Code'')
           | Some code \<Rightarrow>
               (case st_Msg r of
                  None \<Rightarrow> Inl (KeyError ''Msg'')
                | Some message \<Rightarrow>
                    if status \<in> set [''W'', ''E'', ''F'']
                    then Inl (ApiError (''API error: '' @ message @ '' (code '' @ str_int code @ '')''))
                    else status_loop rs)))"

definition raise_for_status :: "response \<Rightarrow> error + unit" where
  "raise_for_status response =
     (case r_STATUS response of
        None \<Rightarrow> Inl (KeyError ''STATUS'')
      | Some entries \<Rightarrow> status_loop entries)"

text \<open>
  What one connection yields before \<open>raise_for_status\<close>: an exception of the socket,
  an exception of the decoder, or the decoded reply. The network is a function of
  the configured host, port and timeout, of the number of connections opened before
  and of the command sent; every call of \<open>request\<close> opens one connection, so the
  count goes up by one.
\<close>

datatype reply = Transport string | Undecodable string | Decoded response

type_synonym network = "string \<Rightarrow> int \<Rightarrow> int \<Rightarrow> nat \<Rightarrow> string \<Rightarrow> reply"

record api =
  api_host :: string
  api_port :: int
  api_timeout :: int

text \<open>
  \<^verbatim>\<open>
  response = json.loads("".join(response))
  self.raise_for_status(response)
  response.pop("STATUS")
  response.pop("id")
  return response[list(response.keys())[0]]
  \<close>
\<close>

definition request ::
    "network \<Rightarrow> api \<Rightarrow> string \<Rightarrow> nat \<Rightarrow> (error + payload_record list) \<times> nat" where
  "request net client command n =
     ((case net (api_host client) (api_port client) (api_timeout client) n command of
         Transport msg \<Rightarrow> Inl (OSError msg)
       | Undecodable msg \<Rightarrow> Inl (JSONDecodeError msg)
       | Decoded response \<Rightarrow>
           (case raise_for_status response of
              Inl e \<Rightarrow> Inl e
            | Inr u \<Rightarrow>
                (case r_STATUS response of
                   None \<Rightarrow> Inl (KeyError ''STATUS'')
                 | Some entries \<Rightarrow>
                     (case r_id response of
                        None \<Rightarrow> Inl (KeyError ''id'')
                      | Some i \<Rightarrow>
                          (case r_rest response of
                             [] \<Rightarrow> Inl (IndexError ''list index out of range'')
                           | kv # kvs \<Rightarrow> Inr (snd kv)))))),
      Suc n)"

section \<open>TeamRedMiner.probe\<close>

text \<open>
  The metrics of the first summary record, in the order the code appends them.
  The \<open>logger.info\<close> calls (and the \<open>uptime > 1\<close> that only picks a word of the log
  line) leave no trace in the result.
\<close>

definition summary_metrics :: "payload_record \<Rightarrow> metric list" where
  "summary_metrics summary =
     (case MHS_30s summary of
        None \<Rightarrow> []
      | Some hashrate \<Rightarrow>
          [\<lparr>name = ''hashrate'', mvalue = PyInt hashrate, uom = Some ''MH/s'',
            mcontext = ''hashrate''\<rparr>])
     @ (case Elapsed summary of
          None \<Rightarrow> []
        | Some uptime \<Rightarrow>
            [\<lparr>name = ''uptime'', mvalue = PyInt uptime, uom = Some ''s'',
              mcontext = ''uptime''\<rparr>])"

text \<open>
  One pass of the loop over the devices. Both temperatures are given
  \<open>context="temperature"\<close>.
\<close>

definition device_metrics :: "payload_record \<Rightarrow> metric list" where
  "device_metrics device =
     (case GPU device of
        None \<Rightarrow> []
      | Some gid \<Rightarrow>
          (case Status device of
             None \<Rightarrow> []
           | Some s \<Rightarrow>
               [\<lparr>name = ''alive_'' @ str_int gid, mvalue = PyBool (s = ''Alive''),
                 uom = None, mcontext = ''alive''\<rparr>])
          @ (case Temperature device of
               None \<Rightarrow> []
             | Some temperature \<Rightarrow>
                 [\<lparr>name = ''temperature_'' @ str_int gid, mvalue = PyInt temperature,
                   uom = Some ''C'', mcontext = ''temperature''\<rparr>])
          @ (case TemperatureMem device of
               None \<Rightarrow> []
             | Some temperature \<Rightarrow>
                 [\<lparr>name = ''memory_temperature_'' @ str_int gid,
                   mvalue = PyInt temperature, uom = Some ''C'',
                   mcontext = ''temperature''\<rparr>]))"

definition probe :: "network \<Rightarrow> api \<Rightarrow> nat \<Rightarrow> (error + metric list) \<times> nat" where
  "probe net client n =
     (case request net client ''summary'' n of
        (Inl e, n1) \<Rightarrow> (Inl e, n1)
      | (Inr [], n1) \<Rightarrow> (Inl (IndexError ''list index out of range''), n1)
      | (Inr (summary # others), n1) \<Rightarrow>
          (case request net client ''devs'' n1 of
             (Inl e, n2) \<Rightarrow> (Inl e, n2)
           | (Inr devices, n2) \<Rightarrow>
               (Inr (summary_metrics summary @ concat (map device_metrics devices)), n2)))"

section \<open>The contexts\<close>

subsection \<open>ScalarContext and Range, of the nagiosplugin library\<close>

text \<open>
  \<open>ScalarContext\<close> is not code of the check; it is the class of \<open>nagiosplugin\<close> that
  \<open>main\<close> instantiates for the temperatures. The library's code, as far as the check
  reaches it (a bound is always an \<open>int\<close> here):
  \<^verbatim>\<open>
  class Range:                                  # namedtuple (invert, start, end)
      def __new__(cls, spec=''):
          spec = spec or ''
          if isinstance(spec, Range): ...
          elif isinstance(spec, int) or isinstance(spec, float):
              start, end, invert = 0, spec, False
          else:
              start, end, invert = cls._parse(spec)   # '' gives 0, inf, False
          cls._verify(start, end)                      # ValueError if start > end
          ...
      def match(self, value):
          if value < self.start: return False ^ self.invert
          if value > self.end:   return False ^ self.invert
          return True ^ self.invert
      violation = 'outside range {0}'.format(self._format(False))

  class ScalarContext(Context):
      def __init__(self, name, warning=None, critical=None, ...):
          self.warning = Range(warning)
          self.critical = Range(critical)
      def evaluate(self, metric, resource):
          if not self.critical.match(metric.value):
              return self.result_cls(Critical, self.critical.violation, metric)
          elif not self.warning.match(metric.value):
              return self.result_cls(Warn, self.warning.violation, metric)
          else:
              return self.result_cls(Ok, None, metric)
  \<close>
  The end of a range is an integer or infinity (\<open>None\<close> below).
\<close>

record range =
  rng_invert :: bool
  rng_start :: int
  rng_end :: "int option"

definition Range_new :: "int \<Rightarrow> error + range" where
  "Range_new spec =
     (if spec = 0 then Inr \<lparr>rng_invert = False, rng_start = 0, rng_end = None\<rparr>
      else if 0 > spec
        then Inl (ValueError (''start 0 must not be greater than end '' @ str_int spec))
      else Inr \<lparr>rng_invert = False, rng_start = 0, rng_end = Some spec\<rparr>)"

definition range_match :: "range \<Rightarrow> int \<Rightarrow> bool" where
  "range_match r v =
     (if v < rng_start r then rng_invert r
      else if (case rng_end r of None \<Rightarrow> False | Some e \<Rightarrow> v > e) then rng_invert r
      else \<not> rng_invert r)"

definition range_violation :: "range \<Rightarrow> string" where
  "range_violation r =
     ''outside range '' @ (if rng_invert r then ''@'' else [])
       @ str_int (rng_start r) @ '':''
       @ (case rng_end r of None \<Rightarrow> [] | Some e \<Rightarrow> str_int e)"

definition ScalarContext_evaluate :: "range \<Rightarrow> range \<Rightarrow> metric \<Rightarrow> result" where
  "ScalarContext_evaluate warning critical m =
     (if \<not> range_match critical (num_of (mvalue m)) then
        \<lparr>state = Critical, hint = Some (range_violation critical), metric = m\<rparr>
      else if \<not> range_match warning (num_of (mvalue m)) then
        \<lparr>state = Warn, hint = Some (range_violation warning), metric = m\<rparr>
      else \<lparr>state = Ok, hint = None, metric = m\<rparr>)"

subsection \<open>BooleanContext\<close>

text \<open>
  \<^verbatim>\<open>
  def evaluate(self, metric, resource):
      if not metric.value is self.expected:
          result_type = Ok
          if self.critical:
              result_type = Critical
          elif self.warning:
              result_type = Warn
          return self.result_cls(result_type, f"{metric.name} is not {self.expected}", metric)
      else:
          return self.result_cls(Ok, None, metric)
  \<close>
  \<open>is\<close> compares identities: \<open>True\<close> and \<open>False\<close> are single objects, and no \<open>int\<close> is
  either of them.
\<close>

definition BooleanContext_evaluate :: "bool \<Rightarrow> bool \<Rightarrow> bool \<Rightarrow> metric \<Rightarrow> result" where
  "BooleanContext_evaluate expected warning critical m =
     (if mvalue m \<noteq> PyBool expected then
        \<lparr>state = (if critical then Critical else if warning then Warn else Ok),
         hint = Some (name m @ '' is not '' @ py_str (PyBool expected)),
         metric = m\<rparr>
      else \<lparr>state = Ok, hint = None, metric = m\<rparr>)"

subsection \<open>Dispatch\<close>

datatype ctx =
    BelowThresholdContext "int option" "int option"
  | ScalarContext range range
  | BooleanContext bool bool bool

fun evaluate :: "ctx \<Rightarrow> metric \<Rightarrow> result" where
  "evaluate (BelowThresholdContext warning critical) m =
     BelowThresholdContext_evaluate warning critical m"
| "evaluate (ScalarContext warning critical) m = ScalarContext_evaluate warning critical m"
| "evaluate (BooleanContext expected warning critical) m =
     BooleanContext_evaluate expected warning critical m"

section \<open>TeamRedMinerSummary.problem\<close>

text \<open>
  \<^verbatim>\<open>
  def problem(self, results):
      return ", ".join(
          [f"{result.metric.name} {result.state}: {result.hint}"
           for result in results if str(result.state) != "ok"])
  \<close>
\<close>

fun join :: "string \<Rightarrow> string list \<Rightarrow> string" where
  "join sep [] = []"
| "join sep [x] = x"
| "join sep (x # y # ys) = x @ sep @ join sep (y # ys)"

definition render_result :: "result \<Rightarrow> string" where
  "render_result r =
     name (metric r) @ '' '' @ state_text (state r) @ '': '' @ fmt_opt_str (hint r)"

definition problem :: "result list \<Rightarrow> string" where
  "problem results =
     join '', '' (map render_result (filter (\<lambda>r. state_text (state r) \<noteq> ''ok'') results))"

section \<open>The check of nagiosplugin, as main runs it\<close>

text \<open>
  \<open>Check.__call__\<close> probes the resource and, for every metric in order, looks its
  context up by name and adds the result of \<open>evaluate\<close>:
  \<^verbatim>\<open>
  metrics = resource.probe()
  for metric in metrics:
      context = self.contexts[metric.context]      # KeyError for an unknown name
      metric = metric.replace(contextobj=context, resource=resource)
      result = metric.evaluate()
      self.results.add(result)
      self.perfdata.append(str(metric.performance() or ''))
  \<close>
  Only a \<open>CheckError\<close> is caught there, and nothing in the check raises one. The
  line of performance data is not part of this development: building it raises only for a
  label with a quote or an equals sign, and no name the probe builds has one
  (\<open>probe_names_plain\<close> below).
\<close>

type_synonym contexts = "(string \<times> ctx) list"

fun evaluate_resource :: "contexts \<Rightarrow> metric list \<Rightarrow> error + result list" where
  "evaluate_resource cs [] = Inr []"
| "evaluate_resource cs (m # ms) =
     (case map_of cs (mcontext m) of
        None \<Rightarrow> Inl (ContextKeyError (mcontext m) (map fst cs))
      | Some c \<Rightarrow>
          (case evaluate_resource cs ms of
             Inl e \<Rightarrow> Inl e
           | Inr rs \<Rightarrow> Inr (evaluate c m # rs)))"

text \<open>
  \<^verbatim>\<open>
  # Results
  def most_significant_state(self):
      return max(self.by_state.keys())
  # Check
  def state(self):
      try:
          return self.results.most_significant_state
      except ValueError:
          return Unknown
  def exitcode(self):
      try:
          return int(self.results.most_significant_state)
      except ValueError:
          return 3
  \<close>
  \<open>max\<close> of no state at all raises \<open>ValueError\<close>.
\<close>

definition state_max :: "service_state \<Rightarrow> service_state \<Rightarrow> service_state" where
  "state_max a b = (if state_code a < state_code b then b else a)"

definition most_significant_state :: "result list \<Rightarrow> error + service_state" where
  "most_significant_state results =
     (case map state results of
        [] \<Rightarrow> Inl (ValueError ''max() arg is an empty sequence'')
      | s # ss \<Rightarrow> Inr (foldl state_max s ss))"

definition Check_state :: "result list \<Rightarrow> service_state" where
  "Check_state results =
     (case most_significant_state results of Inl e \<Rightarrow> Unknown | Inr s \<Rightarrow> s)"

definition Check_exitcode :: "result list \<Rightarrow> nat" where
  "Check_exitcode results =
     (case most_significant_state results of Inl e \<Rightarrow> 3 | Inr s \<Rightarrow> state_code s)"

section \<open>main\<close>

text \<open>
  The parsed command line. \<open>default_args\<close> is what \<open>parse_arguments\<close> returns when no
  option is given.
\<close>

record args =
  show_version :: bool
  host :: string
  port :: int
  timeout :: int
  hashrate_warning :: "int option"
  hashrate_critical :: "int option"
  uptime_warning :: "int option"
  uptime_critical :: "int option"
  temperature_warning :: int
  temperature_critical :: int
  memory_temperature_warning :: int
  memory_temperature_critical :: int

definition default_args :: args where
  "default_args =
     \<lparr>show_version = False, host = ''127.0.0.1'', port = 4028, timeout = 1,
      hashrate_warning = None, hashrate_critical = None,
      uptime_warning = None, uptime_critical = None,
      temperature_warning = 70, temperature_critical = 90,
      memory_temperature_warning = 90, memory_temperature_critical = 110\<rparr>"

text \<open>
  \<open>str(err)\<close>: the message of the exception; for a \<open>KeyError\<close> the \<open>repr\<close> of its key,
  for the library's \<open>KeyError\<close> of three arguments the tuple (printed here as Python
  does for names without quotes or escapes; \<open>default\<close> and \<open>null\<close> are the contexts
  every check starts with).
\<close>

definition quoted :: "string \<Rightarrow> string" where
  "quoted s = [CHR 0x27] @ s @ [CHR 0x27]"

fun exc_str :: "error \<Rightarrow> string" where
  "exc_str (OSError msg) = msg"
| "exc_str (JSONDecodeError msg) = msg"
| "exc_str (ApiError msg) = msg"
| "exc_str (KeyError k) = quoted k"
| "exc_str (IndexError msg) = msg"
| "exc_str (ValueError msg) = msg"
| "exc_str (ContextKeyError n known) =
     ''('' @ quoted ''cannot find context'' @ '', '' @ quoted n @ '', ''
       @ quoted (''known contexts: '' @ join '', '' (''default'' # ''null'' # known)) @ '')''"

text \<open>
  The objects \<open>main\<close> hands to \<open>Check\<close>:
  \<^verbatim>\<open>
  BelowThresholdContext("hashrate", warning=args.hashrate_warning, critical=args.hashrate_critical),
  BelowThresholdContext("uptime", warning=args.uptime_warning, critical=args.uptime_critical),
  ScalarContext("temperature", warning=args.temperature_warning, critical=args.temperature_critical),
  BooleanContext("alive", expected=True, critical=True),
  \<close>
\<close>

definition main_contexts :: "args \<Rightarrow> error + contexts" where
  "main_contexts a =
     (case Range_new (temperature_warning a) of
        Inl e \<Rightarrow> Inl e
      | Inr w \<Rightarrow>
          (case Range_new (temperature_critical a) of
             Inl e \<Rightarrow> Inl e
           | Inr c \<Rightarrow>
               Inr [(''hashrate'',
                      BelowThresholdContext (hashrate_warning a) (hashrate_critical a)),
                    (''uptime'', BelowThresholdContext (uptime_warning a) (uptime_critical a)),
                    (''temperature'', ScalarContext w c),
                    (''alive'', BooleanContext True False True)]))"

text \<open>
  The body of the \<open>try\<close>: build the check, probe, evaluate. The second component is
  the number of connections opened.
\<close>

definition run_check :: "network \<Rightarrow> args \<Rightarrow> (error + result list) \<times> nat" where
  "run_check net a =
     (case main_contexts a of
        Inl e \<Rightarrow> (Inl e, 0)
      | Inr cs \<Rightarrow>
          (case probe net \<lparr>api_host = host a, api_port = port a, api_timeout = timeout a\<rparr> 0 of
             (Inl e, n) \<Rightarrow> (Inl e, n)
           | (Inr metrics, n) \<Rightarrow> (evaluate_resource cs metrics, n)))"

text \<open>
  \<^verbatim>\<open>
  if args.show_version:
      show_version()
      return
  try:
      check = Check(...)
      check.main()
  except Exception as err:
      print(f"Failed to execute check: {str(err)}")
      logger.debug(err, exc_info=True)
      sys.exit(Unknown.code)
  \<close>
  \<open>check.main()\<close> reports the results and leaves with \<open>sys.exit(check.exitcode)\<close>;
  \<open>SystemExit\<close> is no \<open>Exception\<close> and passes the handler.
\<close>

datatype outcome = ShowVersion | Checked "result list" | Failed string

definition main :: "network \<Rightarrow> args \<Rightarrow> outcome \<times> nat" where
  "main net a =
     (if show_version a then (ShowVersion, 0)
      else
        (case run_check net a of
           (Inl err, n) \<Rightarrow> (Failed (''Failed to execute check: '' @ exc_str err), n)
         | (Inr results, n) \<Rightarrow> (Checked results, n)))"

fun exit_code :: "outcome \<Rightarrow> nat" where
  "exit_code ShowVersion = 0"
| "exit_code (Checked results) = Check_exitcode results"
| "exit_code (Failed line) = state_code Unknown"

fun severity :: "outcome \<Rightarrow> service_state option" where
  "severity ShowVersion = None"
| "severity (Checked results) = Some (Check_state results)"
| "severity (Failed line) = Some Unknown"

section \<open>Example inputs\<close>

text \<open>Concrete metrics, results and replies at which the theorems below are instantiated.\<close>

definition temperature_metric :: "int \<Rightarrow> metric" where
  "temperature_metric t =
     \<lparr>name = ''temperature_0'', mvalue = PyInt t, uom = Some ''C'',
      mcontext = ''temperature''\<rparr>"

definition example_results :: "result list" where
  "example_results =
     [\<lparr>state = Ok, hint = None,
        metric = \<lparr>name = ''hashrate'', mvalue = PyInt 50, uom = Some ''MH/s'',
                   mcontext = ''hashrate''\<rparr>\<rparr>,
      \<lparr>state = Warn, hint = Some ''outside range 0:70'',
        metric = \<lparr>name = ''temperature_0'', mvalue = PyInt 75, uom = Some ''C'',
                   mcontext = ''temperature''\<rparr>\<rparr>,
      \<lparr>state = Critical, hint = Some ''alive_0 is not True'',
        metric = \<lparr>name = ''alive_0'', mvalue = PyBool False, uom = None,
                   mcontext = ''alive''\<rparr>\<rparr>]"

definition ok_status :: status_entry where
  "ok_status = \<lparr>st_STATUS = Some ''S'', st_Code = Some 11, st_Msg = Some ''Summary''\<rparr>"

definition empty_record :: payload_record where
  "empty_record =
     \<lparr>MHS_30s = None, Elapsed = None, GPU = None, Status = None, Temperature = None,
      TemperatureMem = None\<rparr>"

text \<open>A rig that answers both commands but reports none of the fields the probe reads.\<close>

definition silent_net :: network where
  "silent_net h p t n command =
     (if command = ''summary''
      then Decoded \<lparr>r_STATUS = Some [ok_status], r_id = Some 1,
                     r_rest = [(''SUMMARY'', [empty_record])]\<rparr>
      else Decoded \<lparr>r_STATUS = Some [ok_status], r_id = Some 1, r_rest = [(''DEVS'', [])]\<rparr>)"

text \<open>A rig with one living GPU at 60 degrees whose memory is at 80 degrees.\<close>

definition rig_net :: network where
  "rig_net h p t n command =
     (if command = ''summary''
      then Decoded \<lparr>r_STATUS = Some [ok_status], r_id = Some 1,
                     r_rest = [(''SUMMARY'', [empty_record\<lparr>MHS_30s := Some 50, Elapsed := Some 100\<rparr>])]\<rparr>
      else Decoded \<lparr>r_STATUS = Some [ok_status], r_id = Some 1,
                     r_rest = [(''DEVS'', [empty_record\<lparr>GPU := Some 0, Status := Some ''Alive'',
                                 Temperature := Some 60, TemperatureMem := Some 80\<rparr>])]\<rparr>)"

text \<open>A rig that rejects every command.\<close>

definition bad_command_net :: network where
  "bad_command_net h p t n command =
     Decoded \<lparr>r_STATUS = Some [\<lparr>st_STATUS = Some ''E'', st_Code = Some 1,
                                 st_Msg = Some ''bad command''\<rparr>],
              r_id = Some 1, r_rest = []\<rparr>"

text \<open>A rig whose summary has no \<open>Elapsed\<close> and whose only GPU reports no temperature.\<close>

definition no_elapsed_net :: network where
  "no_elapsed_net h p t n command =
     (if command = ''summary''
      then Decoded \<lparr>r_STATUS = Some [ok_status], r_id = Some 1,
                     r_rest = [(''SUMMARY'', [empty_record\<lparr>MHS_30s := Some 50\<rparr>])]\<rparr>
      else Decoded \<lparr>r_STATUS = Some [ok_status], r_id = Some 1,
                     r_rest = [(''DEVS'', [empty_record\<lparr>GPU := Some 0,
                                                          Status := Some ''Alive''\<rparr>])]\<rparr>)"

definition local_api :: api where
  "local_api = \<lparr>api_host = ''127.0.0.1'', api_port = 4028, api_timeout = 1\<rparr>"

text \<open>Nothing listens on the port.\<close>

definition refusing_net :: network where
  "refusing_net h p t n command = Transport ''[Errno 111] Connection refused''"

text \<open>A stalled rig: hashrate 0, no uptime reported, no device.\<close>

definition stalled_net :: network where
  "stalled_net h p t n command =
     (if command = ''summary''
      then Decoded \<lparr>r_STATUS = Some [ok_status], r_id = Some 1,
                     r_rest = [(''SUMMARY'', [empty_record\<lparr>MHS_30s := Some 0\<rparr>])]\<rparr>
      else Decoded \<lparr>r_STATUS = Some [ok_status], r_id = Some 1, r_rest = [(''DEVS'', [])]\<rparr>)"

definition hashrate_metric :: "int \<Rightarrow> metric" where
  "hashrate_metric v =
     \<lparr>name = ''hashrate'', mvalue = PyInt v, uom = Some ''MH/s'', mcontext = ''hashrate''\<rparr>"

section \<open>Auxiliary facts\<close>

lemma str_int_0: "str_int 0 = ''0''"
  by code_simp

lemma str_int_1: "str_int 1 = ''1''"
  by code_simp

lemma str_int_5: "str_int 5 = ''5''"
  by code_simp

lemma Range_new_pos:
  "0 < b \<Longrightarrow> Range_new b = Inr \<lparr>rng_invert = False, rng_start = 0, rng_end = Some b\<rparr>"
  by (simp add: Range_new_def)

lemma default_contexts:
  "main_contexts default_args =
     Inr [(''hashrate'', BelowThresholdContext None None),
          (''uptime'', BelowThresholdContext None None),
          (''temperature'',
             ScalarContext \<lparr>rng_invert = False, rng_start = 0, rng_end = Some 70\<rparr>
                           \<lparr>rng_invert = False, rng_start = 0, rng_end = Some 90\<rparr>),
          (''alive'', BooleanContext True False True)]"
  by (simp add: main_contexts_def default_args_def Range_new_def)

lemma main_contexts_alive:
  "main_contexts a = Inr cs \<Longrightarrow> map_of cs ''alive'' = Some (BooleanContext True False True)"
  by (auto simp add: main_contexts_def split: sum.splits)

section \<open>Properties of the threshold-below context\<close>

text \<open>
  What \<open>evaluate\<close> does for a metric with a unit: a bound that is configured and is
  not 0 gives Critical, or else Warning, when the value is at most the bound, with
  the hint \<open><value><=<bound><unit>\<close>; otherwise the verdict is Ok with no hint.
\<close>

lemma below_threshold_nonzero_bounds:
  assumes "uom m = Some u" and "u \<noteq> []"
  shows
    "(\<forall>c. critical = Some c \<and> c \<noteq> 0 \<and> num_of (mvalue m) \<le> c \<longrightarrow>
        BelowThresholdContext_evaluate warning critical m =
          \<lparr>state = Critical, hint = Some (py_str (mvalue m) @ ''<='' @ str_int c @ u),
           metric = m\<rparr>)
     \<and> (\<forall>w. \<not> (\<exists>c. critical = Some c \<and> c \<noteq> 0 \<and> num_of (mvalue m) \<le> c)
            \<and> warning = Some w \<and> w \<noteq> 0 \<and> num_of (mvalue m) \<le> w \<longrightarrow>
        BelowThresholdContext_evaluate warning critical m =
          \<lparr>state = Warn, hint = Some (py_str (mvalue m) @ ''<='' @ str_int w @ u),
           metric = m\<rparr>)
     \<and> (\<not> (\<exists>c. critical = Some c \<and> c \<noteq> 0 \<and> num_of (mvalue m) \<le> c)
          \<and> \<not> (\<exists>w. warning = Some w \<and> w \<noteq> 0 \<and> num_of (mvalue m) \<le> w) \<longrightarrow>
        BelowThresholdContext_evaluate warning critical m =
          \<lparr>state = Ok, hint = None, metric = m\<rparr>)"
  using assms
  by (auto simp add: BelowThresholdContext_evaluate_def truthy_def le_bound_def
      metric_unit_def fmt_opt_int_def fmt_opt_str_def Let_def split: option.splits)

text \<open>
  Claim C1: with a critical bound configured (any number, including 0) and a value at
  most the bound, the verdict is Critical with the hint \<open><value><=<bound><unit>\<close>. The
  code does not do this for the bound 0. Run with \<open>--hashrate-critical 0\<close> against a
  stalled rig (hashrate 0), the check is Ok with no hint, although 0 is at most 0;
  the same holds for the value -3. The performance data of the same metric carries
  the critical bound 0 all the same, and for the bound 5 the value 5 is Critical
  with the hint \<open>5<=5MH/s\<close>.
\<close>

theorem zero_critical_bound_not_applied:
  "num_of (PyInt 0) \<le> 0
   \<and> main stalled_net (default_args\<lparr>hashrate_critical := Some 0\<rparr>)
      = (Checked [\<lparr>state = Ok, hint = None, metric = hashrate_metric 0\<rparr>], 2)
   \<and> severity (fst (main stalled_net (default_args\<lparr>hashrate_critical := Some 0\<rparr>)))
      = Some Ok
   \<and> BelowThresholdContext_evaluate None (Some 0) (hashrate_metric 0)
      = \<lparr>state = Ok, hint = None, metric = hashrate_metric 0\<rparr>
   \<and> BelowThresholdContext_evaluate None (Some 0) (hashrate_metric (- 3))
      = \<lparr>state = Ok, hint = None, metric = hashrate_metric (- 3)\<rparr>
   \<and> perf_crit (BelowThresholdContext_performance None (Some 0) (hashrate_metric 0)) = Some 0
   \<and> BelowThresholdContext_evaluate None (Some 5) (hashrate_metric 5)
      = \<lparr>state = Critical, hint = Some ''5<=5MH/s'', metric = hashrate_metric 5\<rparr>"
proof -
  have run: "main stalled_net (default_args\<lparr>hashrate_critical := Some 0\<rparr>)
      = (Checked [\<lparr>state = Ok, hint = None, metric = hashrate_metric 0\<rparr>], 2)"
    by code_simp
  have sev: "severity (fst (main stalled_net (default_args\<lparr>hashrate_critical := Some 0\<rparr>)))
      = Some Ok"
    by (simp add: run Check_state_def most_significant_state_def)
  have zero: "BelowThresholdContext_evaluate None (Some 0) (hashrate_metric v)
      = \<lparr>state = Ok, hint = None, metric = hashrate_metric v\<rparr>" for v
    by (simp add: BelowThresholdContext_evaluate_def truthy_def Let_def)
  have perf: "perf_crit (BelowThresholdContext_performance None (Some 0) (hashrate_metric 0))
      = Some 0"
    by (simp add: BelowThresholdContext_performance_def)
  have five: "BelowThresholdContext_evaluate None (Some 5) (hashrate_metric 5)
      = \<lparr>state = Critical, hint = Some ''5<=5MH/s'', metric = hashrate_metric 5\<rparr>"
    by (simp add: BelowThresholdContext_evaluate_def truthy_def le_bound_def metric_unit_def
        fmt_opt_int_def fmt_opt_str_def hashrate_metric_def Let_def str_int_5)
  from run sev zero [of 0] zero [of "- 3"] perf five show ?thesis
    by simp
qed

text \<open>
  Claim C10. A bound configured as the number 0 behaves exactly like a bound that is
  not configured: the result is the same for every metric and every other bound, so a
  critical bound of 0 never gives Critical and a warning bound of 0 never gives
  Warning, whatever the value.
\<close>

theorem zero_bound_is_unconfigured:
  "BelowThresholdContext_evaluate warning (Some 0) m
     = BelowThresholdContext_evaluate warning None m
   \<and> BelowThresholdContext_evaluate (Some 0) critical m
     = BelowThresholdContext_evaluate None critical m
   \<and> state (BelowThresholdContext_evaluate warning (Some 0) m) \<noteq> Critical
   \<and> state (BelowThresholdContext_evaluate (Some 0) critical m) \<noteq> Warn"
  by (simp add: BelowThresholdContext_evaluate_def truthy_def Let_def)

theorem zero_bound_is_unconfigured_witness:
  "state (BelowThresholdContext_evaluate None (Some 0)
      \<lparr>name = ''hashrate'', mvalue = PyInt (- 3), uom = Some ''MH/s'',
       mcontext = ''hashrate''\<rparr>) \<noteq> Critical
   \<and> state (BelowThresholdContext_evaluate (Some 0) None
      \<lparr>name = ''uptime'', mvalue = PyInt 0, uom = Some ''s'', mcontext = ''uptime''\<rparr>)
     \<noteq> Warn"
  using zero_bound_is_unconfigured
    [of None "\<lparr>name = ''hashrate'', mvalue = PyInt (- 3), uom = Some ''MH/s'',
               mcontext = ''hashrate''\<rparr>" None]
    zero_bound_is_unconfigured
    [of None "\<lparr>name = ''uptime'', mvalue = PyInt 0, uom = Some ''s'', mcontext = ''uptime''\<rparr>"
        None]
  by blast

section \<open>Properties of the boolean context\<close>

text \<open>
  Claim C7. When the metric's value is the expected boolean, the verdict is Ok with no
  hint. Otherwise (the other boolean, or a value that is no boolean) the verdict is
  Critical if the context is configured critical, else Warning if configured
  warning, else Ok, with the hint \<open><metricName> is not <expected>\<close>. With the context
  \<open>main\<close> registers (expected \<open>True\<close>, critical), the alive metric of GPU 0 is Ok when
  the device's status is \<open>Alive\<close> and Critical with the hint \<open>alive_0 is not True\<close> for
  any other status.
\<close>

theorem boolean_context_verdict:
  "(mvalue m = PyBool expected \<longrightarrow>
      BooleanContext_evaluate expected warning critical m
        = \<lparr>state = Ok, hint = None, metric = m\<rparr>)
   \<and> (mvalue m \<noteq> PyBool expected \<longrightarrow>
      BooleanContext_evaluate expected warning critical m
        = \<lparr>state = (if critical then Critical else if warning then Warn else Ok),
           hint = Some (name m @ '' is not '' @ (if expected then ''True'' else ''False'')),
           metric = m\<rparr>)
   \<and> (\<forall>cs s. main_contexts a = Inr cs \<longrightarrow>
        evaluate_resource cs
          (device_metrics \<lparr>MHS_30s = None, Elapsed = None, GPU = Some 0, Status = Some s,
                           Temperature = None, TemperatureMem = None\<rparr>)
        = Inr [\<lparr>state = (if s = ''Alive'' then Ok else Critical),
                 hint = (if s = ''Alive'' then None else Some ''alive_0 is not True''),
                 metric = \<lparr>name = ''alive_0'', mvalue = PyBool (s = ''Alive''), uom = None,
                            mcontext = ''alive''\<rparr>\<rparr>])"
  by (auto simp add: BooleanContext_evaluate_def device_metrics_def str_int_0
      dest!: main_contexts_alive)

theorem boolean_context_verdict_witness:
  "main_contexts default_args =
     Inr [(''hashrate'', BelowThresholdContext None None),
          (''uptime'', BelowThresholdContext None None),
          (''temperature'',
             ScalarContext \<lparr>rng_invert = False, rng_start = 0, rng_end = Some 70\<rparr>
                           \<lparr>rng_invert = False, rng_start = 0, rng_end = Some 90\<rparr>),
          (''alive'', BooleanContext True False True)]
   \<and> evaluate_resource
        [(''hashrate'', BelowThresholdContext None None),
          (''uptime'', BelowThresholdContext None None),
          (''temperature'',
             ScalarContext \<lparr>rng_invert = False, rng_start = 0, rng_end = Some 70\<rparr>
                           \<lparr>rng_invert = False, rng_start = 0, rng_end = Some 90\<rparr>),
          (''alive'', BooleanContext True False True)]
        (device_metrics \<lparr>MHS_30s = None, Elapsed = None, GPU = Some 0, Status = Some ''Dead'',
                         Temperature = None, TemperatureMem = None\<rparr>)
      = Inr [\<lparr>state = Critical, hint = Some ''alive_0 is not True'',
               metric = \<lparr>name = ''alive_0'', mvalue = PyBool False, uom = None,
                          mcontext = ''alive''\<rparr>\<rparr>]
   \<and> BooleanContext_evaluate True False True
        \<lparr>name = ''alive_0'', mvalue = PyBool True, uom = None, mcontext = ''alive''\<rparr>
      = \<lparr>state = Ok, hint = None,
         metric = \<lparr>name = ''alive_0'', mvalue = PyBool True, uom = None,
                    mcontext = ''alive''\<rparr>\<rparr>"
  using boolean_context_verdict
    [of "\<lparr>name = ''alive_0'', mvalue = PyBool True, uom = None, mcontext = ''alive''\<rparr>"
        True False True default_args]
    default_contexts
  by simp

section \<open>Properties of the threshold-above context\<close>

text \<open>
  Claim C3, as the library's \<open>ScalarContext\<close> has it. A bound \<open>b > 0\<close> is the range from
  0 to \<open>b\<close>, both ends inside. The verdict is Critical exactly when the value is
  greater than the critical bound or less than 0; else Warning exactly when the
  value is greater than the warning bound; else Ok. A value equal to a bound is
  inside that bound's range and does not trigger its tier.
\<close>

theorem scalar_context_verdict:
  assumes "0 < w" and "0 < c"
  shows
    "\<exists>rw rc. Range_new w = Inr rw \<and> Range_new c = Inr rc
       \<and> (state (ScalarContext_evaluate rw rc m) = Critical
            \<longleftrightarrow> c < num_of (mvalue m) \<or> num_of (mvalue m) < 0)
       \<and> (state (ScalarContext_evaluate rw rc m) = Warn
            \<longleftrightarrow> \<not> (c < num_of (mvalue m) \<or> num_of (mvalue m) < 0) \<and> w < num_of (mvalue m))
       \<and> (state (ScalarContext_evaluate rw rc m) = Ok
            \<longleftrightarrow> 0 \<le> num_of (mvalue m) \<and> num_of (mvalue m) \<le> c \<and> num_of (mvalue m) \<le> w)"
  using assms
  by (auto simp add: Range_new_pos ScalarContext_evaluate_def range_match_def)

text \<open>
  The witness, at the default bounds 70 and 90: 95 is Critical, 75 is Warning, 50 is
  Ok, 90 is Warning and 70 is Ok.
\<close>

theorem scalar_context_verdict_witness:
  "(0::int) < 70 \<and> (0::int) < 90
   \<and> (\<exists>rw rc. Range_new 70 = Inr rw \<and> Range_new 90 = Inr rc
        \<and> state (ScalarContext_evaluate rw rc (temperature_metric 95)) = Critical
        \<and> state (ScalarContext_evaluate rw rc (temperature_metric 75)) = Warn
        \<and> state (ScalarContext_evaluate rw rc (temperature_metric 50)) = Ok
        \<and> state (ScalarContext_evaluate rw rc (temperature_metric 90)) = Warn
        \<and> state (ScalarContext_evaluate rw rc (temperature_metric 70)) = Ok)"
  using scalar_context_verdict [of 70 90 "temperature_metric 95"]
    scalar_context_verdict [of 70 90 "temperature_metric 75"]
    scalar_context_verdict [of 70 90 "temperature_metric 50"]
    scalar_context_verdict [of 70 90 "temperature_metric 90"]
    scalar_context_verdict [of 70 90 "temperature_metric 70"]
  by (auto simp add: temperature_metric_def)

text \<open>
  Claim C3 as the specification words it (Critical exactly when the value is at least
  the critical bound, a value equal to a bound triggers that bound's tier) fails: with
  the default contexts of \<open>main\<close>, the temperature 90 is at least the critical bound 90
  and the verdict is Warning; the temperature 70 is at least the warning bound 70 and
  the verdict is Ok.
\<close>

theorem scalar_context_equal_bound_counterexample:
  "main_contexts default_args =
     Inr [(''hashrate'', BelowThresholdContext None None),
          (''uptime'', BelowThresholdContext None None),
          (''temperature'',
             ScalarContext \<lparr>rng_invert = False, rng_start = 0, rng_end = Some 70\<rparr>
                           \<lparr>rng_invert = False, rng_start = 0, rng_end = Some 90\<rparr>),
          (''alive'', BooleanContext True False True)]
   \<and> num_of (PyInt 90) \<ge> 90
   \<and> state (evaluate
        (ScalarContext \<lparr>rng_invert = False, rng_start = 0, rng_end = Some 70\<rparr>
                       \<lparr>rng_invert = False, rng_start = 0, rng_end = Some 90\<rparr>)
        (temperature_metric 90)) = Warn
   \<and> num_of (PyInt 70) \<ge> 70
   \<and> state (evaluate
        (ScalarContext \<lparr>rng_invert = False, rng_start = 0, rng_end = Some 70\<rparr>
                       \<lparr>rng_invert = False, rng_start = 0, rng_end = Some 90\<rparr>)
        (temperature_metric 70)) = Ok"
  by (simp add: default_contexts ScalarContext_evaluate_def range_match_def
      temperature_metric_def)

section \<open>Properties of the summary\<close>

lemma join_Cons: "join sep (x # xs) = x @ concat (map (\<lambda>y. sep @ y) xs)"
  by (induction xs arbitrary: x) simp_all

lemma state_text_ok: "state_text s \<noteq> ''ok'' \<longleftrightarrow> s \<noteq> Ok"
  by (cases s) simp_all

lemma render_result_nonempty: "render_result r \<noteq> []"
  by (simp add: render_result_def)

lemma problem_filter:
  "problem results = join '', '' (map render_result (filter (\<lambda>r. state r \<noteq> Ok) results))"
  by (simp add: problem_def state_text_ok)

text \<open>
  Claim C8. \<open>problem\<close> keeps exactly the results whose state is not Ok, in their order;
  the text is the first of them rendered, followed for every further one by a comma,
  a space and that one rendered. A result with a hint renders as
  \<open><metricName> <state>: <hint>\<close>. The text is empty exactly when every result is Ok
  (in particular for no result at all).
\<close>

theorem problem_text:
  "problem results =
     (case filter (\<lambda>r. state r \<noteq> Ok) results of
        [] \<Rightarrow> []
      | r # rs \<Rightarrow> render_result r @ concat (map (\<lambda>q. '', '' @ render_result q) rs))
   \<and> (\<forall>r h. hint r = Some h \<longrightarrow>
         render_result r = name (metric r) @ '' '' @ state_text (state r) @ '': '' @ h)
   \<and> ((\<forall>r \<in> set results. state r = Ok) \<longleftrightarrow> problem results = [])"
proof -
  have a: "problem results =
     (case filter (\<lambda>r. state r \<noteq> Ok) results of
        [] \<Rightarrow> []
      | r # rs \<Rightarrow> render_result r @ concat (map (\<lambda>q. '', '' @ render_result q) rs))"
    unfolding problem_filter
    by (cases "filter (\<lambda>r. state r \<noteq> Ok) results") (simp_all add: join_Cons comp_def)
  have b: "render_result r = name (metric r) @ '' '' @ state_text (state r) @ '': '' @ h"
    if "hint r = Some h" for r h
    using that by (simp add: render_result_def fmt_opt_str_def)
  have c: "(\<forall>r \<in> set results. state r = Ok) \<longleftrightarrow> problem results = []"
  proof
    assume "\<forall>r \<in> set results. state r = Ok"
    then have "filter (\<lambda>r. state r \<noteq> Ok) results = []"
      by (simp add: filter_empty_conv)
    then show "problem results = []"
      by (simp add: a)
  next
    assume e: "problem results = []"
    show "\<forall>r \<in> set results. state r = Ok"
    proof (cases "filter (\<lambda>r. state r \<noteq> Ok) results")
      case Nil
      then show ?thesis
        by (simp add: filter_empty_conv)
    next
      case (Cons r rs)
      with e a have "render_result r = []"
        by simp
      then show ?thesis
        by (simp add: render_result_nonempty)
    qed
  qed
  from a b c show ?thesis
    by blast
qed

theorem problem_text_witness:
  "problem example_results
     = ''temperature_0 warning: outside range 0:70, alive_0 critical: alive_0 is not True''
   \<and> problem [] = []
   \<and> problem [\<lparr>state = Ok, hint = None,
        metric = \<lparr>name = ''hashrate'', mvalue = PyInt 50, uom = Some ''MH/s'',
                   mcontext = ''hashrate''\<rparr>\<rparr>] = []"
  using problem_text [of example_results] problem_text [of "[]"]
    problem_text [of "[\<lparr>state = Ok, hint = None,
        metric = \<lparr>name = ''hashrate'', mvalue = PyInt 50, uom = Some ''MH/s'',
                   mcontext = ''hashrate''\<rparr>\<rparr>]"]
  by (simp add: example_results_def render_result_def fmt_opt_str_def)

section \<open>Properties of the overall state\<close>

lemma foldl_state_max_ge: "state_code s \<le> state_code (foldl state_max s ss)"
proof (induction ss arbitrary: s)
  case Nil
  show ?case
    by simp
next
  case (Cons x xs)
  have "state_code s \<le> state_code (state_max s x)"
    by (simp add: state_max_def)
  also have "\<dots> \<le> state_code (foldl state_max (state_max s x) xs)"
    by (rule Cons.IH)
  finally show ?case
    by simp
qed

lemma foldl_state_max_upper:
  "x \<in> set ss \<Longrightarrow> state_code x \<le> state_code (foldl state_max s ss)"
proof (induction ss arbitrary: s)
  case Nil
  then show ?case
    by simp
next
  case (Cons y ys)
  show ?case
  proof (cases "x = y")
    case True
    have "state_code y \<le> state_code (state_max s y)"
      by (simp add: state_max_def)
    also have "\<dots> \<le> state_code (foldl state_max (state_max s y) ys)"
      by (rule foldl_state_max_ge)
    finally show ?thesis
      using True by simp
  next
    case False
    with Cons.prems have "x \<in> set ys"
      by simp
    then show ?thesis
      using Cons.IH by simp
  qed
qed

lemma foldl_state_max_mem: "foldl state_max s ss \<in> insert s (set ss)"
proof (induction ss arbitrary: s)
  case Nil
  show ?case
    by simp
next
  case (Cons y ys)
  have "foldl state_max (state_max s y) ys \<in> insert (state_max s y) (set ys)"
    by (rule Cons.IH)
  moreover have "state_max s y = s \<or> state_max s y = y"
    by (simp add: state_max_def)
  ultimately show ?case
    by auto
qed

lemma silent_run: "main silent_net default_args = (Checked [], 2)"
  by code_simp

text \<open>
  Claim C9, as the library's \<open>Check\<close> has it. For a check that has results, the overall
  state is the state of one of them and no result has a state of a greater code, in
  the order Ok (0), Warning (1), Critical (2), Unknown (3): it is their maximum. For
  a check without any result the overall state is Unknown. The exit code is the code
  of the overall state.
\<close>

theorem overall_state_is_maximum:
  "(results \<noteq> [] \<longrightarrow>
      Check_state results \<in> state ` set results
      \<and> (\<forall>r \<in> set results. state_code (state r) \<le> state_code (Check_state results)))
   \<and> Check_state [] = Unknown
   \<and> Check_exitcode results = state_code (Check_state results)
   \<and> severity (Checked results) = Some (Check_state results)"
proof -
  have a: "Check_state [] = Unknown"
    by (simp add: Check_state_def most_significant_state_def)
  have b: "Check_exitcode results = state_code (Check_state results)"
    by (simp add: Check_state_def Check_exitcode_def split: sum.splits)
  have c: "Check_state results \<in> state ` set results
      \<and> (\<forall>r \<in> set results. state_code (state r) \<le> state_code (Check_state results))"
    if "results \<noteq> []"
  proof -
    from that obtain r rs where rs: "results = r # rs"
      by (cases results) auto
    have cs: "Check_state results = foldl state_max (state r) (map state rs)"
      by (simp add: rs Check_state_def most_significant_state_def)
    have "foldl state_max (state r) (map state rs) \<in> insert (state r) (set (map state rs))"
      by (rule foldl_state_max_mem)
    then have "foldl state_max (state r) (map state rs) \<in> state ` set results"
      by (simp add: rs)
    then have mem: "Check_state results \<in> state ` set results"
      by (simp only: cs)
    have "state_code (state q) \<le> state_code (Check_state results)" if "q \<in> set results" for q
    proof (cases "q = r")
      case True
      then show ?thesis
        by (simp add: cs foldl_state_max_ge)
    next
      case False
      with that have "state q \<in> set (map state rs)"
        by (auto simp add: rs)
      then show ?thesis
        by (simp only: cs foldl_state_max_upper)
    qed
    with mem show ?thesis
      by blast
  qed
  from a b c show ?thesis
    by simp
qed

text \<open>The witness: one Ok, one Warning and one Critical result give Critical, exit code 2.\<close>

theorem overall_state_is_maximum_witness:
  "example_results \<noteq> []
   \<and> map state example_results = [Ok, Warn, Critical]
   \<and> Check_state example_results = Critical
   \<and> Check_exitcode example_results = 2"
  using overall_state_is_maximum [of example_results]
  by (simp add: example_results_def Check_state_def most_significant_state_def state_max_def)

text \<open>
  Claim C9 as the specification words it (Ok when the result set is empty) fails: the
  overall state of no results is Unknown, with exit code 3. The check reaches this
  when the rig answers both commands and reports none of the fields the probe reads.
\<close>

theorem overall_state_empty_counterexample:
  "Check_state [] = Unknown
   \<and> Check_state [] \<noteq> Ok
   \<and> Check_exitcode [] = 3
   \<and> main silent_net default_args = (Checked [], 2)
   \<and> severity (fst (main silent_net default_args)) = Some Unknown"
  by (simp add: silent_run Check_state_def Check_exitcode_def most_significant_state_def)

section \<open>Properties of the status envelope\<close>

lemma status_loop_ApiError:
  "status_loop entries = Inl (ApiError msg) \<Longrightarrow>
     \<exists>r status code message. r \<in> set entries \<and> st_STATUS r = Some status
       \<and> status \<in> {''W'', ''E'', ''F''}
       \<and> st_Code r = Some code \<and> st_Msg r = Some message
       \<and> msg = ''API error: '' @ message @ '' (code '' @ str_int code @ '')''"
proof (induction entries)
  case Nil
  then show ?case by simp
next
  case (Cons r rs)
  show ?case
  proof (cases "\<exists>status code message. st_STATUS r = Some status \<and> st_Code r = Some code
      \<and> st_Msg r = Some message \<and> status \<notin> {''W'', ''E'', ''F''}")
    case True
    with Cons.prems have "status_loop rs = Inl (ApiError msg)" by auto
    from Cons.IH [OF this] show ?thesis by auto
  next
    case False
    with Cons.prems show ?thesis
      by (auto split: option.splits if_splits)
  qed
qed

lemma status_loop_passes:
  "\<forall>r \<in> set entries. st_STATUS r \<noteq> None \<and> st_Code r \<noteq> None \<and> st_Msg r \<noteq> None \<Longrightarrow>
   \<forall>r \<in> set entries. st_STATUS r \<notin> {Some ''W'', Some ''E'', Some ''F''} \<Longrightarrow>
   status_loop entries = Inr ()"
  by (induction entries) auto

lemma status_loop_first:
  "\<forall>r \<in> set entries. st_STATUS r \<noteq> None \<and> st_Code r \<noteq> None \<and> st_Msg r \<noteq> None \<Longrightarrow>
   find (\<lambda>r. st_STATUS r \<in> {Some ''W'', Some ''E'', Some ''F''}) entries = Some r \<Longrightarrow>
   st_Code r = Some code \<Longrightarrow> st_Msg r = Some message \<Longrightarrow>
   status_loop entries = Inl (ApiError (''API error: '' @ message @ '' (code '' @ str_int code @ '')''))"
proof (induction entries)
  case Nil
  then show ?case by simp
next
  case (Cons x xs)
  show ?case
  proof (cases "st_STATUS x \<in> {Some ''W'', Some ''E'', Some ''F''}")
    case True
    with Cons.prems have "x = r" by simp
    with True Cons.prems show ?thesis by auto
  next
    case False
    with Cons.prems have f: "find (\<lambda>r. st_STATUS r \<in> {Some ''W'', Some ''E'', Some ''F''}) xs = Some r"
      by simp
    from Cons.prems have w: "\<forall>r \<in> set xs. st_STATUS r \<noteq> None \<and> st_Code r \<noteq> None \<and> st_Msg r \<noteq> None"
      by simp
    have "status_loop xs = Inl (ApiError (''API error: '' @ message @ '' (code '' @ str_int code @ '')''))"
      using Cons.IH [OF w f Cons.prems(3) Cons.prems(4)] .
    moreover from Cons.prems(1) obtain s c m where "st_STATUS x = Some s" "st_Code x = Some c" "st_Msg x = Some m"
      by auto
    ultimately show ?thesis using False by auto
  qed
qed

lemma request_ApiError:
  "fst (request net cl command n) = Inl (ApiError msg) \<longleftrightarrow>
     (\<exists>response. net (api_host cl) (api_port cl) (api_timeout cl) n command = Decoded response
        \<and> raise_for_status response = Inl (ApiError msg))"
  by (auto simp add: request_def split: reply.splits sum.splits option.splits list.splits)


lemma request_api_error_only_if:
  assumes "fst (request net cl command n) = Inl (ApiError msg)"
  shows "\<exists>response entries r status code message.
          net (api_host cl) (api_port cl) (api_timeout cl) n command = Decoded response
        \<and> r_STATUS response = Some entries \<and> r \<in> set entries
        \<and> st_STATUS r = Some status \<and> status \<in> {''W'', ''E'', ''F''}
        \<and> st_Code r = Some code \<and> st_Msg r = Some message
        \<and> msg = ''API error: '' @ message @ '' (code '' @ str_int code @ '')''"
proof -
  from assms obtain response
    where d: "net (api_host cl) (api_port cl) (api_timeout cl) n command = Decoded response"
      and r: "raise_for_status response = Inl (ApiError msg)"
    by (auto simp add: request_ApiError)
  from r obtain entries where e: "r_STATUS response = Some entries"
    and l: "status_loop entries = Inl (ApiError msg)"
    by (auto simp add: raise_for_status_def split: option.splits)
  from status_loop_ApiError [OF l] d e show ?thesis
    by blast
qed

lemma request_api_error_first:
  assumes d: "net (api_host cl) (api_port cl) (api_timeout cl) n command = Decoded response"
    and e: "r_STATUS response = Some entries"
    and w: "\<forall>r \<in> set entries. st_STATUS r \<noteq> None \<and> st_Code r \<noteq> None \<and> st_Msg r \<noteq> None"
    and f: "find (\<lambda>r. st_STATUS r \<in> {Some ''W'', Some ''E'', Some ''F''}) entries = Some r"
    and c: "st_Code r = Some code" and m: "st_Msg r = Some message"
  shows "fst (request net cl command n)
           = Inl (ApiError (''API error: '' @ message @ '' (code '' @ str_int code @ '')''))"
proof -
  have "raise_for_status response
          = Inl (ApiError (''API error: '' @ message @ '' (code '' @ str_int code @ '')''))"
    using status_loop_first [OF w f c m] by (simp add: raise_for_status_def e)
  with d show ?thesis
    by (simp only: request_ApiError) blast
qed

lemma request_api_error_iff:
  assumes d: "net (api_host cl) (api_port cl) (api_timeout cl) n command = Decoded response"
    and e: "r_STATUS response = Some entries"
    and w: "\<forall>r \<in> set entries. st_STATUS r \<noteq> None \<and> st_Code r \<noteq> None \<and> st_Msg r \<noteq> None"
  shows "(\<exists>msg. fst (request net cl command n) = Inl (ApiError msg))
           \<longleftrightarrow> (\<exists>r \<in> set entries. st_STATUS r \<in> {Some ''W'', Some ''E'', Some ''F''})"
proof
  assume "\<exists>msg. fst (request net cl command n) = Inl (ApiError msg)"
  then obtain msg where "fst (request net cl command n) = Inl (ApiError msg)" ..
  from request_api_error_only_if [OF this] d e
  show "\<exists>r \<in> set entries. st_STATUS r \<in> {Some ''W'', Some ''E'', Some ''F''}"
    by auto
next
  assume "\<exists>r \<in> set entries. st_STATUS r \<in> {Some ''W'', Some ''E'', Some ''F''}"
  then obtain r
    where f: "find (\<lambda>r. st_STATUS r \<in> {Some ''W'', Some ''E'', Some ''F''}) entries = Some r"
    by (cases "find (\<lambda>r. st_STATUS r \<in> {Some ''W'', Some ''E'', Some ''F''}) entries")
      (auto simp add: find_None_iff)
  then have "r \<in> set entries"
    by (auto simp add: find_Some_iff)
  with w obtain code message where c: "st_Code r = Some code" and m: "st_Msg r = Some message"
    by auto
  from request_api_error_first [where net = net and cl = cl, OF d e w f c m]
  show "\<exists>msg. fst (request net cl command n) = Inl (ApiError msg)"
    by blast
qed

lemma raise_for_status_passes:
  assumes "r_STATUS response = Some entries"
    and "\<forall>r \<in> set entries. st_STATUS r \<noteq> None \<and> st_Code r \<noteq> None \<and> st_Msg r \<noteq> None"
    and "\<forall>r \<in> set entries. st_STATUS r \<notin> {Some ''W'', Some ''E'', Some ''F''}"
  shows "raise_for_status response = Inr ()"
  using status_loop_passes [OF assms(2) assms(3)] by (simp add: raise_for_status_def assms(1))

text \<open>
  Claim C4. \<open>request\<close> raises an \<open>ApiError\<close> only when an element of the reply's
  \<open>STATUS\<close> array has the status \<open>W\<close>, \<open>E\<close> or \<open>F\<close>, and the error's text carries that
  element's message and code. For a reply whose \<open>STATUS\<close> elements all have the keys
  \<open>STATUS\<close>, \<open>Code\<close> and \<open>Msg\<close> the converse holds too: \<open>request\<close> raises an \<open>ApiError\<close>
  if and only if some element has one of the three statuses, the error is built from
  the first such element, and when no element has one of them the validation passes.
\<close>

theorem api_error_iff_failing_status:
  "(\<forall>msg. fst (request net cl command n) = Inl (ApiError msg) \<longrightarrow>
      (\<exists>response entries r status code message.
          net (api_host cl) (api_port cl) (api_timeout cl) n command = Decoded response
        \<and> r_STATUS response = Some entries \<and> r \<in> set entries
        \<and> st_STATUS r = Some status \<and> status \<in> {''W'', ''E'', ''F''}
        \<and> st_Code r = Some code \<and> st_Msg r = Some message
        \<and> msg = ''API error: '' @ message @ '' (code '' @ str_int code @ '')''))
   \<and> (\<forall>response entries.
        net (api_host cl) (api_port cl) (api_timeout cl) n command = Decoded response
        \<and> r_STATUS response = Some entries
        \<and> (\<forall>r \<in> set entries. st_STATUS r \<noteq> None \<and> st_Code r \<noteq> None \<and> st_Msg r \<noteq> None) \<longrightarrow>
          ((\<exists>msg. fst (request net cl command n) = Inl (ApiError msg))
             \<longleftrightarrow> (\<exists>r \<in> set entries. st_STATUS r \<in> {Some ''W'', Some ''E'', Some ''F''}))
        \<and> (\<forall>r code message.
              find (\<lambda>r. st_STATUS r \<in> {Some ''W'', Some ''E'', Some ''F''}) entries = Some r
              \<and> st_Code r = Some code \<and> st_Msg r = Some message \<longrightarrow>
              fst (request net cl command n)
                = Inl (ApiError (''API error: '' @ message @ '' (code '' @ str_int code @ '')'')))
        \<and> ((\<forall>r \<in> set entries. st_STATUS r \<notin> {Some ''W'', Some ''E'', Some ''F''}) \<longrightarrow>
              raise_for_status response = Inr ()))"
proof (rule conjI)
  show "\<forall>msg. fst (request net cl command n) = Inl (ApiError msg) \<longrightarrow>
      (\<exists>response entries r status code message.
          net (api_host cl) (api_port cl) (api_timeout cl) n command = Decoded response
        \<and> r_STATUS response = Some entries \<and> r \<in> set entries
        \<and> st_STATUS r = Some status \<and> status \<in> {''W'', ''E'', ''F''}
        \<and> st_Code r = Some code \<and> st_Msg r = Some message
        \<and> msg = ''API error: '' @ message @ '' (code '' @ str_int code @ '')'')"
    using request_api_error_only_if by blast
next
  show "\<forall>response entries.
        net (api_host cl) (api_port cl) (api_timeout cl) n command = Decoded response
        \<and> r_STATUS response = Some entries
        \<and> (\<forall>r \<in> set entries. st_STATUS r \<noteq> None \<and> st_Code r \<noteq> None \<and> st_Msg r \<noteq> None) \<longrightarrow>
          ((\<exists>msg. fst (request net cl command n) = Inl (ApiError msg))
             \<longleftrightarrow> (\<exists>r \<in> set entries. st_STATUS r \<in> {Some ''W'', Some ''E'', Some ''F''}))
        \<and> (\<forall>r code message.
              find (\<lambda>r. st_STATUS r \<in> {Some ''W'', Some ''E'', Some ''F''}) entries = Some r
              \<and> st_Code r = Some code \<and> st_Msg r = Some message \<longrightarrow>
              fst (request net cl command n)
                = Inl (ApiError (''API error: '' @ message @ '' (code '' @ str_int code @ '')'')))
        \<and> ((\<forall>r \<in> set entries. st_STATUS r \<notin> {Some ''W'', Some ''E'', Some ''F''}) \<longrightarrow>
              raise_for_status response = Inr ())"
  proof (intro allI impI, elim conjE)
    fix response entries
    assume d: "net (api_host cl) (api_port cl) (api_timeout cl) n command = Decoded response"
      and e: "r_STATUS response = Some entries"
      and w: "\<forall>r \<in> set entries. st_STATUS r \<noteq> None \<and> st_Code r \<noteq> None \<and> st_Msg r \<noteq> None"
    note i = request_api_error_iff [where net = net and cl = cl, OF d e w]
    have f: "\<forall>r code message.
              find (\<lambda>r. st_STATUS r \<in> {Some ''W'', Some ''E'', Some ''F''}) entries = Some r
              \<and> st_Code r = Some code \<and> st_Msg r = Some message \<longrightarrow>
              fst (request net cl command n)
                = Inl (ApiError (''API error: '' @ message @ '' (code '' @ str_int code @ '')''))"
      using request_api_error_first [where net = net and cl = cl, OF d e w] by blast
    have p: "(\<forall>r \<in> set entries. st_STATUS r \<notin> {Some ''W'', Some ''E'', Some ''F''}) \<longrightarrow>
              raise_for_status response = Inr ()"
      using raise_for_status_passes [OF e w] by blast
    from i f p
    show "((\<exists>msg. fst (request net cl command n) = Inl (ApiError msg))
             \<longleftrightarrow> (\<exists>r \<in> set entries. st_STATUS r \<in> {Some ''W'', Some ''E'', Some ''F''}))
        \<and> (\<forall>r code message.
              find (\<lambda>r. st_STATUS r \<in> {Some ''W'', Some ''E'', Some ''F''}) entries = Some r
              \<and> st_Code r = Some code \<and> st_Msg r = Some message \<longrightarrow>
              fst (request net cl command n)
                = Inl (ApiError (''API error: '' @ message @ '' (code '' @ str_int code @ '')'')))
        \<and> ((\<forall>r \<in> set entries. st_STATUS r \<notin> {Some ''W'', Some ''E'', Some ''F''}) \<longrightarrow>
              raise_for_status response = Inr ())"
      by (intro conjI)
  qed
qed


text \<open>
  The witness: the reply with the single status element \<open>E\<close>, code 1, message
  \<open>bad command\<close>.
\<close>

theorem api_error_iff_failing_status_witness:
  "bad_command_net ''127.0.0.1'' 4028 1 0 ''summary''
     = Decoded \<lparr>r_STATUS = Some [\<lparr>st_STATUS = Some ''E'', st_Code = Some 1,
                                   st_Msg = Some ''bad command''\<rparr>],
                r_id = Some 1, r_rest = []\<rparr>
   \<and> fst (request bad_command_net
            \<lparr>api_host = ''127.0.0.1'', api_port = 4028, api_timeout = 1\<rparr> ''summary'' 0)
      = Inl (ApiError ''API error: bad command (code 1)'')"
proof -
  have d: "bad_command_net
             (api_host \<lparr>api_host = ''127.0.0.1'', api_port = 4028, api_timeout = 1\<rparr>)
             (api_port \<lparr>api_host = ''127.0.0.1'', api_port = 4028, api_timeout = 1\<rparr>)
             (api_timeout \<lparr>api_host = ''127.0.0.1'', api_port = 4028, api_timeout = 1\<rparr>)
             0 ''summary''
     = Decoded \<lparr>r_STATUS = Some [\<lparr>st_STATUS = Some ''E'', st_Code = Some 1,
                                   st_Msg = Some ''bad command''\<rparr>],
                r_id = Some 1, r_rest = []\<rparr>"
    by (simp add: bad_command_net_def)
  have e: "r_STATUS \<lparr>r_STATUS = Some [\<lparr>st_STATUS = Some ''E'', st_Code = Some 1,
                                   st_Msg = Some ''bad command''\<rparr>],
                r_id = Some 1, r_rest = []\<rparr>
            = Some [\<lparr>st_STATUS = Some ''E'', st_Code = Some 1, st_Msg = Some ''bad command''\<rparr>]"
    by simp
  have w: "\<forall>r \<in> set [\<lparr>st_STATUS = Some ''E'', st_Code = Some 1, st_Msg = Some ''bad command''\<rparr>].
             st_STATUS r \<noteq> None \<and> st_Code r \<noteq> None \<and> st_Msg r \<noteq> None"
    by simp
  have f: "find (\<lambda>r. st_STATUS r \<in> {Some ''W'', Some ''E'', Some ''F''})
             [\<lparr>st_STATUS = Some ''E'', st_Code = Some 1, st_Msg = Some ''bad command''\<rparr>]
           = Some \<lparr>st_STATUS = Some ''E'', st_Code = Some 1, st_Msg = Some ''bad command''\<rparr>
         \<and> st_Code \<lparr>st_STATUS = Some ''E'', st_Code = Some 1, st_Msg = Some ''bad command''\<rparr>
           = Some 1
         \<and> st_Msg \<lparr>st_STATUS = Some ''E'', st_Code = Some 1, st_Msg = Some ''bad command''\<rparr>
           = Some ''bad command''"
    by simp
  note t = api_error_iff_failing_status
    [where net = bad_command_net
       and cl = "\<lparr>api_host = ''127.0.0.1'', api_port = 4028, api_timeout = 1\<rparr>"
       and command = "''summary''" and n = 0,
     THEN conjunct2, rule_format, OF conjI [OF d conjI [OF e w]],
     THEN conjunct2, THEN conjunct1, rule_format, OF f]
  from t have "fst (request bad_command_net
            \<lparr>api_host = ''127.0.0.1'', api_port = 4028, api_timeout = 1\<rparr> ''summary'' 0)
      = Inl (ApiError ''API error: bad command (code 1)'')"
    by (simp add: str_int_1)
  moreover have "bad_command_net ''127.0.0.1'' 4028 1 0 ''summary''
     = Decoded \<lparr>r_STATUS = Some [\<lparr>st_STATUS = Some ''E'', st_Code = Some 1,
                                   st_Msg = Some ''bad command''\<rparr>],
                r_id = Some 1, r_rest = []\<rparr>"
    by (simp add: bad_command_net_def)
  ultimately show ?thesis
    by blast
qed

section \<open>Properties of the probe\<close>

lemma summary_metrics_names:
  "name ` set (summary_metrics s) =
     (if MHS_30s s = None then {} else {''hashrate''}) \<union> (if Elapsed s = None then {} else {''uptime''})"
  by (auto simp add: summary_metrics_def split: option.splits)

lemma device_metrics_not_summary:
  "m \<in> set (device_metrics d) \<Longrightarrow> name m \<noteq> ''hashrate'' \<and> name m \<noteq> ''uptime''"
  by (auto simp add: device_metrics_def split: option.splits)

lemma device_metrics_no_GPU: "GPU d = None \<Longrightarrow> device_metrics d = []"
  by (simp add: device_metrics_def)

lemma device_metrics_names:
  "GPU d = Some g \<Longrightarrow>
     (''alive_'' @ str_int g \<in> name ` set (device_metrics d) \<longleftrightarrow> Status d \<noteq> None)
   \<and> (''temperature_'' @ str_int g \<in> name ` set (device_metrics d) \<longleftrightarrow> Temperature d \<noteq> None)
   \<and> (''memory_temperature_'' @ str_int g \<in> name ` set (device_metrics d)
        \<longleftrightarrow> TemperatureMem d \<noteq> None)"
  by (cases "Status d"; cases "Temperature d"; cases "TemperatureMem d")
    (simp_all add: device_metrics_def)

lemma request_count: "snd (request net cl command n) = Suc n"
  by (simp add: request_def)

lemma probe_success:
  "request net cl ''summary'' n = (Inr (s # others), n1) \<Longrightarrow>
   request net cl ''devs'' n1 = (Inr ds, n2) \<Longrightarrow>
   probe net cl n = (Inr (summary_metrics s @ concat (map device_metrics ds)), n2)"
  by (simp add: probe_def)

lemma probe_failure:
  "fst (probe net cl n) = Inl e \<Longrightarrow>
     fst (request net cl ''summary'' n) = Inl e
   \<or> (fst (request net cl ''summary'' n) = Inr [] \<and> e = IndexError ''list index out of range'')
   \<or> fst (request net cl ''devs'' (Suc n)) = Inl e"
  using request_count [of net cl "''summary''" n]
  by (auto simp add: probe_def split: prod.splits sum.splits list.splits)


lemma device_metrics_kinds:
  "(''alive_'' @ x \<in> name ` set (device_metrics d)
      \<longleftrightarrow> (\<exists>g. GPU d = Some g \<and> Status d \<noteq> None \<and> x = str_int g))
   \<and> (''temperature_'' @ x \<in> name ` set (device_metrics d)
      \<longleftrightarrow> (\<exists>g. GPU d = Some g \<and> Temperature d \<noteq> None \<and> x = str_int g))
   \<and> (''memory_temperature_'' @ x \<in> name ` set (device_metrics d)
      \<longleftrightarrow> (\<exists>g. GPU d = Some g \<and> TemperatureMem d \<noteq> None \<and> x = str_int g))"
  by (cases "GPU d"; cases "Status d"; cases "Temperature d"; cases "TemperatureMem d")
    (auto simp add: device_metrics_def)

lemma summary_metrics_kinds:
  "''alive_'' @ x \<notin> name ` set (summary_metrics s)
   \<and> ''temperature_'' @ x \<notin> name ` set (summary_metrics s)
   \<and> ''memory_temperature_'' @ x \<notin> name ` set (summary_metrics s)"
  by (auto simp add: summary_metrics_def split: option.splits)

lemma summary_metrics_values:
  "m \<in> set (summary_metrics s) \<Longrightarrow>
     (name m = ''hashrate'' \<longrightarrow> MHS_30s s = Some (num_of (mvalue m)))
   \<and> (name m = ''uptime'' \<longrightarrow> Elapsed s = Some (num_of (mvalue m)))"
  by (auto simp add: summary_metrics_def split: option.splits)

lemma probe_metrics_names:
  assumes "ms = summary_metrics s @ concat (map device_metrics ds)"
  shows "(''hashrate'' \<in> name ` set ms \<longleftrightarrow> MHS_30s s \<noteq> None)"
    and "(''uptime'' \<in> name ` set ms \<longleftrightarrow> Elapsed s \<noteq> None)"
    and "(''alive_'' @ x \<in> name ` set ms
           \<longleftrightarrow> (\<exists>d \<in> set ds. \<exists>g. GPU d = Some g \<and> Status d \<noteq> None \<and> x = str_int g))"
    and "(''temperature_'' @ x \<in> name ` set ms
           \<longleftrightarrow> (\<exists>d \<in> set ds. \<exists>g. GPU d = Some g \<and> Temperature d \<noteq> None \<and> x = str_int g))"
    and "(''memory_temperature_'' @ x \<in> name ` set ms
           \<longleftrightarrow> (\<exists>d \<in> set ds. \<exists>g. GPU d = Some g \<and> TemperatureMem d \<noteq> None \<and> x = str_int g))"
proof -
  have n: "name ` set ms = name ` set (summary_metrics s) \<union> (\<Union>d \<in> set ds. name ` set (device_metrics d))"
    by (auto simp add: assms)
  have ns: "''hashrate'' \<notin> (\<Union>d \<in> set ds. name ` set (device_metrics d))"
    "''uptime'' \<notin> (\<Union>d \<in> set ds. name ` set (device_metrics d))"
    using device_metrics_not_summary by fastforce+
  show "(''hashrate'' \<in> name ` set ms \<longleftrightarrow> MHS_30s s \<noteq> None)"
    using ns by (simp add: n summary_metrics_names)
  show "(''uptime'' \<in> name ` set ms \<longleftrightarrow> Elapsed s \<noteq> None)"
    using ns by (simp add: n summary_metrics_names)
  show "(''alive_'' @ x \<in> name ` set ms
           \<longleftrightarrow> (\<exists>d \<in> set ds. \<exists>g. GPU d = Some g \<and> Status d \<noteq> None \<and> x = str_int g))"
    using summary_metrics_kinds [of x s] device_metrics_kinds [of x]
    by (simp add: n)
  show "(''temperature_'' @ x \<in> name ` set ms
           \<longleftrightarrow> (\<exists>d \<in> set ds. \<exists>g. GPU d = Some g \<and> Temperature d \<noteq> None \<and> x = str_int g))"
    using summary_metrics_kinds [of x s] device_metrics_kinds [of x]
    by (simp add: n)
  show "(''memory_temperature_'' @ x \<in> name ` set ms
           \<longleftrightarrow> (\<exists>d \<in> set ds. \<exists>g. GPU d = Some g \<and> TemperatureMem d \<noteq> None \<and> x = str_int g))"
    using summary_metrics_kinds [of x s] device_metrics_kinds [of x]
    by (simp add: n)
qed


lemma probe_metrics_values:
  assumes "ms = summary_metrics s @ concat (map device_metrics ds)" and "m \<in> set ms"
  shows "(name m = ''hashrate'' \<longrightarrow> MHS_30s s = Some (num_of (mvalue m)))
       \<and> (name m = ''uptime'' \<longrightarrow> Elapsed s = Some (num_of (mvalue m)))"
proof (cases "m \<in> set (summary_metrics s)")
  case True
  then show ?thesis
    by (rule summary_metrics_values)
next
  case False
  with assms obtain d where "m \<in> set (device_metrics d)"
    by auto
  then show ?thesis
    using device_metrics_not_summary by blast
qed

text \<open>
  Claim C6. When both requests return (and the summary array is not empty), the probe
  returns the metrics of the first summary record followed by those of every device
  record; it fails only when a request fails or the summary array is empty, never
  for a field that is missing. In the metrics returned, \<open>hashrate\<close> is present exactly
  when the summary record has \<open>MHS 30s\<close> and \<open>uptime\<close> exactly when it has \<open>Elapsed\<close>,
  each with the value of its field; \<open>alive_<id>\<close>, \<open>temperature_<id>\<close> and
  \<open>memory_temperature_<id>\<close> are present exactly when some device record has \<open>GPU\<close>
  equal to that id together with \<open>Status\<close>, \<open>Temperature\<close> and \<open>TemperatureMem\<close>
  respectively; a device record without \<open>GPU\<close> gives no metric.
\<close>

theorem probe_emission:
  "(\<forall>s others ds n1 n2.
      request net cl ''summary'' n = (Inr (s # others), n1)
      \<and> request net cl ''devs'' n1 = (Inr ds, n2) \<longrightarrow>
        probe net cl n = (Inr (summary_metrics s @ concat (map device_metrics ds)), n2))
   \<and> (\<forall>e. fst (probe net cl n) = Inl e \<longrightarrow>
        fst (request net cl ''summary'' n) = Inl e
        \<or> (fst (request net cl ''summary'' n) = Inr []
            \<and> e = IndexError ''list index out of range'')
        \<or> fst (request net cl ''devs'' (Suc n)) = Inl e)
   \<and> (\<forall>s ds ms. ms = summary_metrics s @ concat (map device_metrics ds) \<longrightarrow>
        (''hashrate'' \<in> name ` set ms \<longleftrightarrow> MHS_30s s \<noteq> None)
        \<and> (''uptime'' \<in> name ` set ms \<longleftrightarrow> Elapsed s \<noteq> None)
        \<and> (\<forall>x. ''alive_'' @ x \<in> name ` set ms
              \<longleftrightarrow> (\<exists>d \<in> set ds. \<exists>g. GPU d = Some g \<and> Status d \<noteq> None \<and> x = str_int g))
        \<and> (\<forall>x. ''temperature_'' @ x \<in> name ` set ms
              \<longleftrightarrow> (\<exists>d \<in> set ds. \<exists>g. GPU d = Some g \<and> Temperature d \<noteq> None
                     \<and> x = str_int g))
        \<and> (\<forall>x. ''memory_temperature_'' @ x \<in> name ` set ms
              \<longleftrightarrow> (\<exists>d \<in> set ds. \<exists>g. GPU d = Some g \<and> TemperatureMem d \<noteq> None
                     \<and> x = str_int g))
        \<and> (\<forall>m \<in> set ms.
              (name m = ''hashrate'' \<longrightarrow> MHS_30s s = Some (num_of (mvalue m)))
              \<and> (name m = ''uptime'' \<longrightarrow> Elapsed s = Some (num_of (mvalue m)))))
   \<and> (\<forall>d. GPU d = None \<longrightarrow> device_metrics d = [])"
proof -
  have a: "\<forall>s others ds n1 n2.
      request net cl ''summary'' n = (Inr (s # others), n1)
      \<and> request net cl ''devs'' n1 = (Inr ds, n2) \<longrightarrow>
        probe net cl n = (Inr (summary_metrics s @ concat (map device_metrics ds)), n2)"
    by (simp add: probe_def)
  have b: "\<forall>e. fst (probe net cl n) = Inl e \<longrightarrow>
        fst (request net cl ''summary'' n) = Inl e
        \<or> (fst (request net cl ''summary'' n) = Inr []
            \<and> e = IndexError ''list index out of range'')
        \<or> fst (request net cl ''devs'' (Suc n)) = Inl e"
    using probe_failure by blast
  have c: "\<forall>s ds ms. ms = summary_metrics s @ concat (map device_metrics ds) \<longrightarrow>
        (''hashrate'' \<in> name ` set ms \<longleftrightarrow> MHS_30s s \<noteq> None)
        \<and> (''uptime'' \<in> name ` set ms \<longleftrightarrow> Elapsed s \<noteq> None)
        \<and> (\<forall>x. ''alive_'' @ x \<in> name ` set ms
              \<longleftrightarrow> (\<exists>d \<in> set ds. \<exists>g. GPU d = Some g \<and> Status d \<noteq> None \<and> x = str_int g))
        \<and> (\<forall>x. ''temperature_'' @ x \<in> name ` set ms
              \<longleftrightarrow> (\<exists>d \<in> set ds. \<exists>g. GPU d = Some g \<and> Temperature d \<noteq> None
                     \<and> x = str_int g))
        \<and> (\<forall>x. ''memory_temperature_'' @ x \<in> name ` set ms
              \<longleftrightarrow> (\<exists>d \<in> set ds. \<exists>g. GPU d = Some g \<and> TemperatureMem d \<noteq> None
                     \<and> x = str_int g))
        \<and> (\<forall>m \<in> set ms.
              (name m = ''hashrate'' \<longrightarrow> MHS_30s s = Some (num_of (mvalue m)))
              \<and> (name m = ''uptime'' \<longrightarrow> Elapsed s = Some (num_of (mvalue m))))"
  proof (intro allI impI)
    fix s ds ms
    assume e: "ms = summary_metrics s @ concat (map device_metrics ds)"
    note n = probe_metrics_names [OF e]
    have v: "\<forall>m \<in> set ms.
              (name m = ''hashrate'' \<longrightarrow> MHS_30s s = Some (num_of (mvalue m)))
              \<and> (name m = ''uptime'' \<longrightarrow> Elapsed s = Some (num_of (mvalue m)))"
      using probe_metrics_values [OF e] by blast
    from n(1) n(2) n(3) n(4) n(5) v
    show "(''hashrate'' \<in> name ` set ms \<longleftrightarrow> MHS_30s s \<noteq> None)
        \<and> (''uptime'' \<in> name ` set ms \<longleftrightarrow> Elapsed s \<noteq> None)
        \<and> (\<forall>x. ''alive_'' @ x \<in> name ` set ms
              \<longleftrightarrow> (\<exists>d \<in> set ds. \<exists>g. GPU d = Some g \<and> Status d \<noteq> None \<and> x = str_int g))
        \<and> (\<forall>x. ''temperature_'' @ x \<in> name ` set ms
              \<longleftrightarrow> (\<exists>d \<in> set ds. \<exists>g. GPU d = Some g \<and> Temperature d \<noteq> None
                     \<and> x = str_int g))
        \<and> (\<forall>x. ''memory_temperature_'' @ x \<in> name ` set ms
              \<longleftrightarrow> (\<exists>d \<in> set ds. \<exists>g. GPU d = Some g \<and> TemperatureMem d \<noteq> None
                     \<and> x = str_int g))
        \<and> (\<forall>m \<in> set ms.
              (name m = ''hashrate'' \<longrightarrow> MHS_30s s = Some (num_of (mvalue m)))
              \<and> (name m = ''uptime'' \<longrightarrow> Elapsed s = Some (num_of (mvalue m))))"
      by (intro conjI allI)
  qed
  have d: "\<forall>d. GPU d = None \<longrightarrow> device_metrics d = []"
    by (simp add: device_metrics_no_GPU)
  from a b c d show ?thesis
    by (intro conjI)
qed

lemma no_elapsed_summary:
  "request no_elapsed_net local_api ''summary'' 0
     = (Inr [empty_record\<lparr>MHS_30s := Some 50\<rparr>], 1)"
  by code_simp

lemma no_elapsed_devs:
  "request no_elapsed_net local_api ''devs'' 1
     = (Inr [empty_record\<lparr>GPU := Some 0, Status := Some ''Alive''\<rparr>], 2)"
  by code_simp

text \<open>
  The witness: a summary without \<open>Elapsed\<close> and one GPU with a status only. The probe
  returns the hashrate and the alive metric, no uptime and no temperature.
\<close>

theorem probe_emission_witness:
  "request no_elapsed_net local_api ''summary'' 0
     = (Inr [empty_record\<lparr>MHS_30s := Some 50\<rparr>], 1)
   \<and> request no_elapsed_net local_api ''devs'' 1
     = (Inr [empty_record\<lparr>GPU := Some 0, Status := Some ''Alive''\<rparr>], 2)
   \<and> Elapsed (empty_record\<lparr>MHS_30s := Some 50\<rparr>) = None
   \<and> probe no_elapsed_net local_api 0
     = (Inr [\<lparr>name = ''hashrate'', mvalue = PyInt 50, uom = Some ''MH/s'',
              mcontext = ''hashrate''\<rparr>,
             \<lparr>name = ''alive_0'', mvalue = PyBool True, uom = None, mcontext = ''alive''\<rparr>],
        2)"
proof -
  note p = probe_emission [where net = no_elapsed_net and cl = local_api and n = 0,
      THEN conjunct1, rule_format, OF conjI [OF no_elapsed_summary no_elapsed_devs]]
  have "probe no_elapsed_net local_api 0
     = (Inr [\<lparr>name = ''hashrate'', mvalue = PyInt 50, uom = Some ''MH/s'',
              mcontext = ''hashrate''\<rparr>,
             \<lparr>name = ''alive_0'', mvalue = PyBool True, uom = None, mcontext = ''alive''\<rparr>],
        2)"
    unfolding p
    by (simp add: summary_metrics_def device_metrics_def empty_record_def str_int_0)
  with no_elapsed_summary no_elapsed_devs show ?thesis
    by (simp add: empty_record_def)
qed

section \<open>The names of the metrics\<close>

text \<open>
  A number prints with digits and a minus sign only, so no name the probe builds
  holds a quote or an equals sign.
\<close>

lemma digit_char_set: "d < 10 \<Longrightarrow> digit_char d \<in> set ''0123456789''"
  unfolding digit_char_def by (rule nth_mem) simp

lemma str_nat_digits: "set (str_nat n) \<subseteq> set ''0123456789''"
proof (induction n rule: str_nat.induct)
  case (1 n)
  show ?case
  proof (cases "n < 10")
    case True
    then show ?thesis
      using digit_char_set [of n] by (subst str_nat.simps) simp
  next
    case False
    have "n mod 10 < 10" by simp
    then have "digit_char (n mod 10) \<in> set ''0123456789''"
      by (rule digit_char_set)
    with 1 False show ?thesis
      by (subst str_nat.simps) simp
  qed
qed



lemma str_nat_plain: "CHR 0x27 \<notin> set (str_nat n) \<and> CHR ''='' \<notin> set (str_nat n)"
proof -
  have "CHR 0x27 \<notin> set ''0123456789'' \<and> CHR ''='' \<notin> set ''0123456789''"
    by simp
  with str_nat_digits [of n] show ?thesis
    by blast
qed

lemma str_int_plain: "CHR 0x27 \<notin> set (str_int i) \<and> CHR ''='' \<notin> set (str_int i)"
  using str_nat_plain [of "nat (- i)"] str_nat_plain [of "nat i"]
  by (simp add: str_int_def)

lemma summary_names_plain:
  "m \<in> set (summary_metrics s) \<Longrightarrow> CHR 0x27 \<notin> set (name m) \<and> CHR ''='' \<notin> set (name m)"
  by (cases "MHS_30s s"; cases "Elapsed s") (auto simp add: summary_metrics_def)

lemma device_names_plain:
  "m \<in> set (device_metrics d) \<Longrightarrow> CHR 0x27 \<notin> set (name m) \<and> CHR ''='' \<notin> set (name m)"
  using str_int_plain
  by (cases "GPU d"; cases "Status d"; cases "Temperature d"; cases "TemperatureMem d")
    (auto simp add: device_metrics_def)

lemma probe_names_plain:
  assumes "m \<in> set (summary_metrics s @ concat (map device_metrics ds))"
  shows "CHR 0x27 \<notin> set (name m) \<and> CHR ''='' \<notin> set (name m)"
  using assms summary_names_plain device_names_plain by auto

section \<open>Properties of the error boundary\<close>

lemma request_replies:
  "(net (api_host cl) (api_port cl) (api_timeout cl) n command = Transport msg \<longrightarrow>
      request net cl command n = (Inl (OSError msg), Suc n))
   \<and> (net (api_host cl) (api_port cl) (api_timeout cl) n command = Undecodable msg \<longrightarrow>
      request net cl command n = (Inl (JSONDecodeError msg), Suc n))
   \<and> (net (api_host cl) (api_port cl) (api_timeout cl) n command = Decoded response
       \<and> raise_for_status response = Inl e \<longrightarrow>
      request net cl command n = (Inl e, Suc n))"
  by (simp add: request_def)

lemma main_contexts_nonneg:
  "0 \<le> temperature_warning a \<Longrightarrow> 0 \<le> temperature_critical a \<Longrightarrow>
     \<exists>cs. main_contexts a = Inr cs"
  by (simp add: main_contexts_def Range_new_def)

lemma run_check_first:
  assumes "0 \<le> temperature_warning a" and "0 \<le> temperature_critical a"
    and "fst (request net \<lparr>api_host = host a, api_port = port a, api_timeout = timeout a\<rparr>
               ''summary'' 0) = Inl e"
  shows "run_check net a = (Inl e, 1)"
proof -
  from main_contexts_nonneg [OF assms(1) assms(2)] obtain cs where c: "main_contexts a = Inr cs" ..
  have "request net \<lparr>api_host = host a, api_port = port a, api_timeout = timeout a\<rparr>
               ''summary'' 0 = (Inl e, 1)"
    using assms(3) request_count [of net _ "''summary''" 0]
    by (metis One_nat_def prod.collapse)
  then show ?thesis
    by (simp add: run_check_def c probe_def)
qed

lemma run_check_second:
  assumes "0 \<le> temperature_warning a" and "0 \<le> temperature_critical a"
    and "fst (request net \<lparr>api_host = host a, api_port = port a, api_timeout = timeout a\<rparr>
               ''summary'' 0) = Inr (s # others)"
    and "fst (request net \<lparr>api_host = host a, api_port = port a, api_timeout = timeout a\<rparr>
               ''devs'' 1) = Inl e"
  shows "run_check net a = (Inl e, 2)"
proof -
  from main_contexts_nonneg [OF assms(1) assms(2)] obtain cs where c: "main_contexts a = Inr cs" ..
  have r1: "request net \<lparr>api_host = host a, api_port = port a, api_timeout = timeout a\<rparr>
               ''summary'' 0 = (Inr (s # others), 1)"
    using assms(3) request_count [of net _ "''summary''" 0]
    by (metis One_nat_def prod.collapse)
  have r2: "request net \<lparr>api_host = host a, api_port = port a, api_timeout = timeout a\<rparr>
               ''devs'' 1 = (Inl e, 2)"
    using assms(4) request_count [of net _ "''devs''" 1]
    by (metis One_nat_def Suc_1 prod.collapse)
  show ?thesis
    using r2 by (simp add: run_check_def c probe_def r1)
qed

lemma main_failed_iff:
  "\<not> show_version a \<Longrightarrow>
     main net a = (Failed line, n)
       \<longleftrightarrow> (\<exists>e. run_check net a = (Inl e, n) \<and> line = ''Failed to execute check: '' @ exc_str e)"
  by (auto simp add: main_def split: prod.splits sum.splits)

text \<open>
  Claim C5. Every exception raised inside the \<open>try\<close> of \<open>main\<close> ends in the one handler:
  the outcome is the line \<open>Failed to execute check: \<close> followed by the exception's
  message, with state Unknown and exit code 3, and a failed outcome arises in no
  other way. A transport error, a decoding error and an API error of a request are
  such exceptions, each with its own message. When the first request fails, one
  connection has been opened; when the second fails, two: nothing is retried.
\<close>

theorem failure_becomes_unknown:
  assumes "\<not> show_version a"
  shows
    "(\<forall>e n. run_check net a = (Inl e, n) \<longrightarrow>
        main net a = (Failed (''Failed to execute check: '' @ exc_str e), n)
        \<and> severity (fst (main net a)) = Some Unknown
        \<and> exit_code (fst (main net a)) = 3)
     \<and> (\<forall>line n. main net a = (Failed line, n) \<longrightarrow>
          (\<exists>e. run_check net a = (Inl e, n)
             \<and> line = ''Failed to execute check: '' @ exc_str e))
     \<and> (\<forall>e. 0 \<le> temperature_warning a \<and> 0 \<le> temperature_critical a
          \<and> fst (request net \<lparr>api_host = host a, api_port = port a, api_timeout = timeout a\<rparr>
                   ''summary'' 0) = Inl e \<longrightarrow>
          main net a = (Failed (''Failed to execute check: '' @ exc_str e), 1))
     \<and> (\<forall>e s others. 0 \<le> temperature_warning a \<and> 0 \<le> temperature_critical a
          \<and> fst (request net \<lparr>api_host = host a, api_port = port a, api_timeout = timeout a\<rparr>
                   ''summary'' 0) = Inr (s # others)
          \<and> fst (request net \<lparr>api_host = host a, api_port = port a, api_timeout = timeout a\<rparr>
                   ''devs'' 1) = Inl e \<longrightarrow>
          main net a = (Failed (''Failed to execute check: '' @ exc_str e), 2))
     \<and> (\<forall>cl n command msg.
          net (api_host cl) (api_port cl) (api_timeout cl) n command = Transport msg \<longrightarrow>
          fst (request net cl command n) = Inl (OSError msg) \<and> exc_str (OSError msg) = msg)
     \<and> (\<forall>cl n command msg.
          net (api_host cl) (api_port cl) (api_timeout cl) n command = Undecodable msg \<longrightarrow>
          fst (request net cl command n) = Inl (JSONDecodeError msg)
          \<and> exc_str (JSONDecodeError msg) = msg)
     \<and> (\<forall>cl n command response msg.
          net (api_host cl) (api_port cl) (api_timeout cl) n command = Decoded response
          \<and> raise_for_status response = Inl (ApiError msg) \<longrightarrow>
          fst (request net cl command n) = Inl (ApiError msg) \<and> exc_str (ApiError msg) = msg)"
proof -
  have p1: "\<forall>e n. run_check net a = (Inl e, n) \<longrightarrow>
        main net a = (Failed (''Failed to execute check: '' @ exc_str e), n)
        \<and> severity (fst (main net a)) = Some Unknown
        \<and> exit_code (fst (main net a)) = 3"
    using assms by (simp add: main_def)
  have p2: "\<forall>line n. main net a = (Failed line, n) \<longrightarrow>
          (\<exists>e. run_check net a = (Inl e, n)
             \<and> line = ''Failed to execute check: '' @ exc_str e)"
    using main_failed_iff [OF assms] by blast
  have p3: "\<forall>e. 0 \<le> temperature_warning a \<and> 0 \<le> temperature_critical a
          \<and> fst (request net \<lparr>api_host = host a, api_port = port a, api_timeout = timeout a\<rparr>
                   ''summary'' 0) = Inl e \<longrightarrow>
          main net a = (Failed (''Failed to execute check: '' @ exc_str e), 1)"
    using run_check_first [of a net] p1 by blast
  have p4: "\<forall>e s others. 0 \<le> temperature_warning a \<and> 0 \<le> temperature_critical a
          \<and> fst (request net \<lparr>api_host = host a, api_port = port a, api_timeout = timeout a\<rparr>
                   ''summary'' 0) = Inr (s # others)
          \<and> fst (request net \<lparr>api_host = host a, api_port = port a, api_timeout = timeout a\<rparr>
                   ''devs'' 1) = Inl e \<longrightarrow>
          main net a = (Failed (''Failed to execute check: '' @ exc_str e), 2)"
    using run_check_second [of a net] p1 by blast
  have p5: "\<forall>cl n command msg.
          net (api_host cl) (api_port cl) (api_timeout cl) n command = Transport msg \<longrightarrow>
          fst (request net cl command n) = Inl (OSError msg) \<and> exc_str (OSError msg) = msg"
    by (simp add: request_def)
  have p6: "\<forall>cl n command msg.
          net (api_host cl) (api_port cl) (api_timeout cl) n command = Undecodable msg \<longrightarrow>
          fst (request net cl command n) = Inl (JSONDecodeError msg)
          \<and> exc_str (JSONDecodeError msg) = msg"
    by (simp add: request_def)
  have p7: "\<forall>cl n command response msg.
          net (api_host cl) (api_port cl) (api_timeout cl) n command = Decoded response
          \<and> raise_for_status response = Inl (ApiError msg) \<longrightarrow>
          fst (request net cl command n) = Inl (ApiError msg) \<and> exc_str (ApiError msg) = msg"
    by (simp add: request_def)
  from p1 p2 p3 p4 p5 p6 p7 show ?thesis
    by (intro conjI)
qed


lemma bad_command_request:
  "fst (request bad_command_net
          \<lparr>api_host = host default_args, api_port = port default_args,
           api_timeout = timeout default_args\<rparr> ''summary'' 0)
     = Inl (ApiError ''API error: bad command (code 1)'')"
  by code_simp

lemma refusing_request:
  "fst (request refusing_net
          \<lparr>api_host = host default_args, api_port = port default_args,
           api_timeout = timeout default_args\<rparr> ''summary'' 0)
     = Inl (OSError ''[Errno 111] Connection refused'')"
  by code_simp

text \<open>
  The witness: a reply whose \<open>STATUS\<close> array holds status \<open>E\<close>, code 1, message
  \<open>bad command\<close>, and a port where nothing listens.
\<close>

theorem failure_becomes_unknown_witness:
  "\<not> show_version default_args
   \<and> 0 \<le> temperature_warning default_args \<and> 0 \<le> temperature_critical default_args
   \<and> main bad_command_net default_args
      = (Failed ''Failed to execute check: API error: bad command (code 1)'', 1)
   \<and> severity (fst (main bad_command_net default_args)) = Some Unknown
   \<and> exit_code (fst (main bad_command_net default_args)) = 3
   \<and> main refusing_net default_args
      = (Failed ''Failed to execute check: [Errno 111] Connection refused'', 1)"
proof -
  have v: "\<not> show_version default_args"
    by (simp add: default_args_def)
  have b: "0 \<le> temperature_warning default_args \<and> 0 \<le> temperature_critical default_args"
    by (simp add: default_args_def)
  note t1 = failure_becomes_unknown [OF v, where net = bad_command_net,
      THEN conjunct2, THEN conjunct2, THEN conjunct1, rule_format,
      OF conjI [OF conjunct1 [OF b] conjI [OF conjunct2 [OF b] bad_command_request]]]
  note t2 = failure_becomes_unknown [OF v, where net = refusing_net,
      THEN conjunct2, THEN conjunct2, THEN conjunct1, rule_format,
      OF conjI [OF conjunct1 [OF b] conjI [OF conjunct2 [OF b] refusing_request]]]
  from v b t1 t2 show ?thesis
    by simp
qed

text \<open>
  With the contexts of \<open>main\<close>, evaluating the metrics of the probe raises nothing: an
  exception of the \<open>try\<close> comes from building the contexts or from the probe.
\<close>

lemma evaluate_resource_total:
  "\<forall>m \<in> set ms. map_of cs (mcontext m) \<noteq> None \<Longrightarrow>
     \<exists>rs. evaluate_resource cs ms = Inr rs \<and> map metric rs = ms"
proof (induction ms)
  case Nil
  show ?case by simp
next
  case (Cons m ms)
  then obtain rs where "evaluate_resource cs ms = Inr rs" "map metric rs = ms"
    by auto
  moreover from Cons.prems obtain c where c: "map_of cs (mcontext m) = Some c"
    by auto
  moreover have "metric (evaluate c m) = m"
    by (cases c)
      (simp_all add: BelowThresholdContext_evaluate_def ScalarContext_evaluate_def
        BooleanContext_evaluate_def Let_def)
  ultimately show ?case
    by simp
qed

lemma probe_metric_contexts:
  "m \<in> set (summary_metrics s @ concat (map device_metrics ds)) \<Longrightarrow>
     mcontext m \<in> {''hashrate'', ''uptime'', ''temperature'', ''alive''}"
  by (auto simp add: summary_metrics_def device_metrics_def split: option.splits)

lemma main_contexts_names:
  "main_contexts a = Inr cs \<Longrightarrow>
     n \<in> {''hashrate'', ''uptime'', ''temperature'', ''alive''} \<Longrightarrow> map_of cs n \<noteq> None"
  by (auto simp add: main_contexts_def split: sum.splits)

lemma run_check_error_source:
  assumes "run_check net a = (Inl e, n)"
  shows "(main_contexts a = Inl e \<and> n = 0)
       \<or> probe net \<lparr>api_host = host a, api_port = port a, api_timeout = timeout a\<rparr> 0 = (Inl e, n)"
proof (cases "main_contexts a")
  case (Inl x)
  with assms show ?thesis
    by (simp add: run_check_def)
next
  case (Inr cs)
  show ?thesis
  proof (cases "probe net \<lparr>api_host = host a, api_port = port a, api_timeout = timeout a\<rparr> 0")
    case (Pair r k)
    show ?thesis
    proof (cases r)
      case (Inl x)
      with assms Inr Pair show ?thesis
        by (simp add: run_check_def)
    next
      case r: (Inr ms)
      with Pair have "fst (probe net \<lparr>api_host = host a, api_port = port a, api_timeout = timeout a\<rparr> 0) = Inr ms"
        by simp
      then obtain s ds where "ms = summary_metrics s @ concat (map device_metrics ds)"
        by (auto simp add: probe_def split: prod.splits sum.splits list.splits)
      then have "\<forall>m \<in> set ms. map_of cs (mcontext m) \<noteq> None"
        using probe_metric_contexts main_contexts_names [OF Inr] by blast
      from evaluate_resource_total [OF this] obtain rs where "evaluate_resource cs ms = Inr rs"
        by blast
      with assms Inr Pair r show ?thesis
        by (simp add: run_check_def)
    qed
  qed
qed

section \<open>The memory temperature\<close>

lemma main_contexts_memory:
  "main_contexts (a\<lparr>memory_temperature_warning := w, memory_temperature_critical := c\<rparr>)
     = main_contexts a"
  by (simp add: main_contexts_def cong: sum.case_cong)

lemma run_check_memory:
  "run_check net (a\<lparr>memory_temperature_warning := w, memory_temperature_critical := c\<rparr>)
     = run_check net a"
  by (simp add: run_check_def main_contexts_memory cong: sum.case_cong)

lemma memory_bounds_ignored:
  "main net (a\<lparr>memory_temperature_warning := w, memory_temperature_critical := c\<rparr>) = main net a"
  by (simp add: main_def run_check_memory)

lemma rig_run:
  "main rig_net default_args =
     (Checked
        [\<lparr>state = Ok, hint = None,
          metric = \<lparr>name = ''hashrate'', mvalue = PyInt 50, uom = Some ''MH/s'',
                     mcontext = ''hashrate''\<rparr>\<rparr>,
         \<lparr>state = Ok, hint = None,
          metric = \<lparr>name = ''uptime'', mvalue = PyInt 100, uom = Some ''s'',
                     mcontext = ''uptime''\<rparr>\<rparr>,
         \<lparr>state = Ok, hint = None,
          metric = \<lparr>name = ''alive_0'', mvalue = PyBool True, uom = None,
                     mcontext = ''alive''\<rparr>\<rparr>,
         \<lparr>state = Ok, hint = None,
          metric = \<lparr>name = ''temperature_0'', mvalue = PyInt 60, uom = Some ''C'',
                     mcontext = ''temperature''\<rparr>\<rparr>,
         \<lparr>state = Warn, hint = Some ''outside range 0:70'',
          metric = \<lparr>name = ''memory_temperature_0'', mvalue = PyInt 80, uom = Some ''C'',
                     mcontext = ''temperature''\<rparr>\<rparr>],
      2)"
  by code_simp

text \<open>
  Claim C2 does not hold of the code. The probe gives the memory temperature the
  context \<open>temperature\<close>, \<open>main\<close> registers no context for the memory temperature and
  never reads \<open>memory_temperature_warning\<close> or \<open>memory_temperature_critical\<close>. With the
  default options (memory bounds 90 and 110) a GPU at 60 degrees with its memory at
  80 degrees is reported as Warning, \<open>outside range 0:70\<close>, the bound of the GPU
  temperature; and whatever the memory bounds are set to, the outcome is the same.
\<close>

theorem memory_temperature_uses_temperature_bounds:
  "memory_temperature_warning default_args = 90
   \<and> memory_temperature_critical default_args = 110
   \<and> main rig_net default_args =
     (Checked
        [\<lparr>state = Ok, hint = None,
          metric = \<lparr>name = ''hashrate'', mvalue = PyInt 50, uom = Some ''MH/s'',
                     mcontext = ''hashrate''\<rparr>\<rparr>,
         \<lparr>state = Ok, hint = None,
          metric = \<lparr>name = ''uptime'', mvalue = PyInt 100, uom = Some ''s'',
                     mcontext = ''uptime''\<rparr>\<rparr>,
         \<lparr>state = Ok, hint = None,
          metric = \<lparr>name = ''alive_0'', mvalue = PyBool True, uom = None,
                     mcontext = ''alive''\<rparr>\<rparr>,
         \<lparr>state = Ok, hint = None,
          metric = \<lparr>name = ''temperature_0'', mvalue = PyInt 60, uom = Some ''C'',
                     mcontext = ''temperature''\<rparr>\<rparr>,
         \<lparr>state = Warn, hint = Some ''outside range 0:70'',
          metric = \<lparr>name = ''memory_temperature_0'', mvalue = PyInt 80, uom = Some ''C'',
                     mcontext = ''temperature''\<rparr>\<rparr>],
      2)
   \<and> severity (fst (main rig_net default_args)) = Some Warn
   \<and> main rig_net (default_args\<lparr>memory_temperature_warning := w,
                                  memory_temperature_critical := c\<rparr>)
     = main rig_net default_args"
proof -
  have "memory_temperature_warning default_args = 90
      \<and> memory_temperature_critical default_args = 110"
    by (simp add: default_args_def)
  moreover have "severity (fst (main rig_net default_args)) = Some Warn"
    by (simp add: rig_run Check_state_def most_significant_state_def state_max_def)
  ultimately show ?thesis
    by (simp add: rig_run memory_bounds_ignored)
qed

end
